theory Spec2Isabelle
  imports Main "HOL-Library.Sublist"
begin

section \<open>Python values and the primitives the program applies to them\<close>

text \<open>
  The program keeps its conversation, the request bodies and the response envelopes as the
  values \<^verbatim>\<open>json.loads\<close> builds: \<^verbatim>\<open>None\<close>, booleans, numbers, strings, lists and
  dicts. A dict is an association list in insertion order; \<^verbatim>\<open>json.loads\<close> and the dict
  displays of the program build dicts with distinct keys. Numbers are integers here: the
  program never computes with a number taken from a body. A string is a list of bytes,
  the UTF-8 encoding of the Python string; the program never measures or indexes a
  string.
\<close>

datatype json =
    JNull
  | JBool bool
  | JNum int
  | JStr string
  | JArr "json list"
  | JObj "(string \<times> json) list"

datatype py_error =
    KeyError string
  | TypeError
  | AttributeError string
  | JSONDecodeError
  | OtherError string

text \<open>\<^verbatim>\<open>v[k]\<close> with a string key: only a dict can be subscripted by a string.\<close>

fun subscript :: "json \<Rightarrow> string \<Rightarrow> py_error + json" where
  "subscript (JObj kvs) k = (case map_of kvs k of None \<Rightarrow> Inl (KeyError k) | Some v \<Rightarrow> Inr v)"
| "subscript _ k = Inl TypeError"

text \<open>
  \<^verbatim>\<open>k in v\<close> with a string \<open>k\<close>: key of a dict, element of a list, substring of a
  string (between UTF-8 encodings, a substring of bytes is a substring of code points).
\<close>

fun py_in :: "string \<Rightarrow> json \<Rightarrow> py_error + bool" where
  "py_in k (JObj kvs) = Inr (k \<in> set (map fst kvs))"
| "py_in k (JArr xs) = Inr (JStr k \<in> set xs)"
| "py_in k (JStr t) = Inr (sublist k t)"
| "py_in k _ = Inl TypeError"

text \<open>
  A Python string is a sequence of code points, and a string here is its UTF-8 encoding:
  \<open>code_points\<close> cuts the bytes into the encodings of the single code points, each
  a leading byte with the continuation bytes (\<open>0x80\<close> to \<open>0xBF\<close>) that follow it.
\<close>

definition continuation_byte :: "char \<Rightarrow> bool" where
  "continuation_byte c = (128 \<le> (of_char c :: nat) \<and> (of_char c :: nat) < 192)"

function code_points :: "string \<Rightarrow> string list" where
  "code_points [] = []"
| "code_points (c # cs) =
     (c # takeWhile continuation_byte cs) # code_points (dropWhile continuation_byte cs)"
  by pat_completeness auto
termination
  by (relation "measure length") (auto simp: length_dropWhile_le less_Suc_eq_le)

text \<open>
  \<^verbatim>\<open>for x in v\<close> and \<^verbatim>\<open>list.extend(v)\<close>: a dict yields its keys, a string its
  characters, one string for each code point.
\<close>

fun py_iter :: "json \<Rightarrow> py_error + json list" where
  "py_iter (JArr xs) = Inr xs"
| "py_iter (JObj kvs) = Inr (map (\<lambda>kv. JStr (fst kv)) kvs)"
| "py_iter (JStr t) = Inr (map JStr (code_points t))"
| "py_iter _ = Inl TypeError"

text \<open>Truth value of a Python value, as \<^verbatim>\<open>if v:\<close> takes it.\<close>

fun truthy :: "json \<Rightarrow> bool" where
  "truthy JNull = False"
| "truthy (JBool b) = b"
| "truthy (JNum n) = (n \<noteq> 0)"
| "truthy (JStr t) = (t \<noteq> [])"
| "truthy (JArr xs) = (xs \<noteq> [])"
| "truthy (JObj kvs) = (kvs \<noteq> [])"

text \<open>
  A value used as a dict key: lists and dicts are unhashable, and \<^verbatim>\<open>True\<close> and
  \<^verbatim>\<open>False\<close> are the keys \<open>1\<close> and \<open>0\<close>.
\<close>

fun dict_key :: "json \<Rightarrow> py_error + json" where
  "dict_key (JArr xs) = Inl TypeError"
| "dict_key (JObj kvs) = Inl TypeError"
| "dict_key (JBool b) = Inr (JNum (if b then 1 else 0))"
| "dict_key v = Inr v"

text \<open>\<^verbatim>\<open>str\<close> of an integer, as an f-string prints the HTTP status.\<close>

fun str_nat :: "nat \<Rightarrow> string" where
  "str_nat n =
     (if n < 10 then [''0123456789'' ! n]
      else str_nat (n div 10) @ [''0123456789'' ! (n mod 10)])"

declare str_nat.simps [simp del]

definition str_int :: "int \<Rightarrow> string" where
  "str_int i = (if i < 0 then CHR ''-'' # str_nat (nat (- i)) else str_nat (nat i))"

text \<open>
  A value inside an f-string: a string stands for itself; how Python prints any other
  value (\<^verbatim>\<open>None\<close>, a list, a dict) is the parameter \<open>fmt\<close>.
\<close>

fun py_str :: "(json \<Rightarrow> string) \<Rightarrow> json \<Rightarrow> string" where
  "py_str fmt (JStr t) = t"
| "py_str fmt v = fmt v"


section \<open>Session state, collaborators and script outcomes\<close>

text \<open>
  \<^verbatim>\<open>st.session_state\<close>: each key the program uses is a field, \<open>None\<close> while the key is
  not set (reading it as an attribute then raises \<^verbatim>\<open>AttributeError\<close>). Two more
  fields observe the run: \<open>api_log\<close> lists the requests sent so far, \<open>screen\<close> the
  display calls made so far, each as the call's name with its main argument (icons and
  widget keys are left out).
\<close>

record api_request =
  http_method :: string
  path :: string
  headers :: json
  params :: json
  body :: json
  request_guid :: json
  timeout :: nat

text \<open>
  A response: \<open>status\<close> is \<^verbatim>\<open>resp["status"]\<close>; \<open>content\<close> is what
  \<^verbatim>\<open>json.loads(resp["content"])\<close> gives, \<open>Inl JSONDecodeError\<close> for a body that is no JSON.
\<close>

record api_response =
  status :: int
  content :: "py_error + json"

type_synonym widget = "string \<times> json"

record state =
  messages :: "json list option"
  active_suggestion :: "json option"
  warnings :: "json list option"
  form_submitted :: "(json \<rightharpoonup> json) option"
  fire_API_error_notify :: "bool option"
  popover_open :: "bool option"
  selected_semantic_model_path :: "string option"
  api_log :: "api_request list"
  screen :: "widget list"

record dataframe =
  columns :: "string list"
  rows :: "json list list"

datatype sql_outcome =
    SqlData dataframe
  | SnowparkSQLException string
  | SqlRaises py_error

text \<open>
  What one run of the script meets outside the program: the network, the warehouse, the
  Python built-ins left open above, and what the user did to the widgets in this run.
\<close>

record host =
  send_snow_api_request :: "api_request \<Rightarrow> api_response"
  str_other :: "json \<Rightarrow> string"
  sql_to_pandas :: "json \<Rightarrow> sql_outcome"
  fromtimestamp :: "json \<Rightarrow> py_error + string"
  charts_tab :: "dataframe \<Rightarrow> nat \<Rightarrow> py_error + widget list"
  chat_input :: "string option"
  clear_chat_history :: bool
  model_selected :: "string option"
  suggestion_button :: "nat \<Rightarrow> nat \<Rightarrow> bool"
  feedback_radio_first :: "json \<Rightarrow> bool"
  feedback_text :: "json \<Rightarrow> string"
  feedback_submit :: "json \<Rightarrow> bool"

text \<open>
  How a piece of the script ends: it falls through (\<open>Done\<close>), it calls
  \<^verbatim>\<open>st.rerun()\<close>, which abandons the run and starts the script again, or it raises.
  The session state reached so far is kept in all three cases.
\<close>

datatype outcome = Done | Rerun | Raised py_error

definition emit :: "string \<Rightarrow> json \<Rightarrow> state \<Rightarrow> state" where
  "emit w arg s = s\<lparr>screen := screen s @ [(w, arg)]\<rparr>"

definition AVAILABLE_SEMANTIC_MODELS_PATHS :: "string list" where
  "AVAILABLE_SEMANTIC_MODELS_PATHS =
     [''STEPHANE_SANDBOX.PUBLIC.RAW_DATA/semantic_model_automated.yaml'',
      ''STEPHANE_SANDBOX.PUBLIC.RAW_DATA/semantic_model.yml'']"

definition API_ENDPOINT :: string where
  "API_ENDPOINT = ''/api/v2/cortex/analyst/message''"

definition FEEDBACK_API_ENDPOINT :: string where
  "FEEDBACK_API_ENDPOINT = ''/api/v2/cortex/analyst/feedback''"

definition API_COMPLETE_ENDPOINT :: string where
  "API_COMPLETE_ENDPOINT = ''/api/v2/cortex/inference:complete''"

definition API_TIMEOUT :: nat where
  "API_TIMEOUT = 50000"

section \<open>The remote client\<close>

text \<open>
  The source file holds, where a siren sign was meant, the four characters U+00F0, U+0178,
  U+0161, U+00A8; \<open>siren\<close> is their UTF-8 encoding.
\<close>

definition siren :: string where
  "siren = [CHR 0xC3, CHR 0xB0, CHR 0xC5, CHR 0xB8, CHR 0xC5, CHR 0xA1, CHR 0xC2, CHR 0xA8]"

definition post :: "string \<Rightarrow> json \<Rightarrow> api_request" where
  "post p b =
     \<lparr>http_method = ''POST'', path = p, headers = JObj [], params = JObj [], body = b,
      request_guid = JNull, timeout = API_TIMEOUT\<rparr>"

definition complete_request :: "json list \<Rightarrow> api_request" where
  "complete_request msgs =
     post API_COMPLETE_ENDPOINT
       (JObj [(''messages'', JArr msgs), (''model'', JStr ''mistral-large2'')])"

definition create_relevant_graph_tables ::
  "host \<Rightarrow> json list \<Rightarrow> state \<Rightarrow> (py_error + json \<times> string option) \<times> state" where
  "create_relevant_graph_tables h msgs s =
     (let req = complete_request msgs;
          resp = send_snow_api_request h req;
          s' = s\<lparr>api_log := api_log s @ [req]\<rparr>
      in (case content resp of
            Inl e \<Rightarrow> Inl e
          | Inr parsed_content \<Rightarrow>
              if status resp < 400 then Inr (parsed_content, None)
              else
                (case subscript parsed_content ''request_id'' of
                   Inl e \<Rightarrow> Inl e
                 | Inr rid \<Rightarrow>
                (case subscript parsed_content ''error_code'' of
                   Inl e \<Rightarrow> Inl e
                 | Inr code \<Rightarrow>
                (case subscript parsed_content ''message'' of
                   Inl e \<Rightarrow> Inl e
                 | Inr msg \<Rightarrow>
                     Inr (parsed_content,
                       Some (''\<newline>'' @ siren @ '' A model creation error has occurred '' @ siren
                         @ ''\<newline>\<newline>* response code: `'' @ str_int (status resp)
                         @ ''`\<newline>* request-id: `'' @ py_str (str_other h) rid
                         @ ''`\<newline>* error code: `'' @ py_str (str_other h) code
                         @ ''`\<newline>\<newline>Message:\<newline>```\<newline>'' @ py_str (str_other h) msg
                         @ ''\<newline>```\<newline>        ''))))),
          s'))"

definition message_request :: "json list \<Rightarrow> string \<Rightarrow> api_request" where
  "message_request msgs model_path =
     post API_ENDPOINT
       (JObj [(''messages'', JArr msgs), (''semantic_model_file'', JStr (''@'' @ model_path))])"

definition get_analyst_response ::
  "host \<Rightarrow> json list \<Rightarrow> state \<Rightarrow> (py_error + json \<times> string option) \<times> state" where
  "get_analyst_response h msgs s =
     (case selected_semantic_model_path s of
        None \<Rightarrow> (Inl (AttributeError ''selected_semantic_model_path''), s)
      | Some model_path \<Rightarrow>
     (let req = message_request msgs model_path;
          resp = send_snow_api_request h req;
          s' = s\<lparr>api_log := api_log s @ [req]\<rparr>
      in (case content resp of
            Inl e \<Rightarrow> Inl e
          | Inr parsed_content \<Rightarrow>
              if status resp < 400 then Inr (parsed_content, None)
              else
                (case subscript parsed_content ''request_id'' of
                   Inl e \<Rightarrow> Inl e
                 | Inr rid \<Rightarrow>
                (case subscript parsed_content ''error_code'' of
                   Inl e \<Rightarrow> Inl e
                 | Inr code \<Rightarrow>
                (case subscript parsed_content ''message'' of
                   Inl e \<Rightarrow> Inl e
                 | Inr msg \<Rightarrow>
                     Inr (parsed_content,
                       Some (''\<newline>'' @ siren @ '' An Analyst API error has occurred '' @ siren
                         @ ''\<newline>\<newline>* response code: `'' @ str_int (status resp)
                         @ ''`\<newline>* request-id: `'' @ py_str (str_other h) rid
                         @ ''`\<newline>* error code: `'' @ py_str (str_other h) code
                         @ ''`\<newline>\<newline>Message:\<newline>```\<newline>'' @ py_str (str_other h) msg
                         @ ''\<newline>```\<newline>        ''))))),
          s')))"

definition feedback_request :: "json \<Rightarrow> bool \<Rightarrow> string \<Rightarrow> api_request" where
  "feedback_request rid positive feedback_message =
     post FEEDBACK_API_ENDPOINT
       (JObj [(''request_id'', rid), (''positive'', JBool positive),
              (''feedback_message'', JStr feedback_message)])"

text \<open>The result is the function's \<^verbatim>\<open>Optional[str]\<close>: \<open>None\<close> when the feedback was taken.\<close>

definition submit_feedback ::
  "host \<Rightarrow> json \<Rightarrow> bool \<Rightarrow> string \<Rightarrow> state \<Rightarrow> (py_error + string option) \<times> state" where
  "submit_feedback h rid positive feedback_message s =
     (let req = feedback_request rid positive feedback_message;
          resp = send_snow_api_request h req;
          s' = s\<lparr>api_log := api_log s @ [req]\<rparr>
      in (if status resp = 200 then Inr None
          else
            (case content resp of
               Inl e \<Rightarrow> Inl e
             | Inr parsed_content \<Rightarrow>
                (case subscript parsed_content ''request_id'' of
                   Inl e \<Rightarrow> Inl e
                 | Inr r \<Rightarrow>
                (case subscript parsed_content ''error_code'' of
                   Inl e \<Rightarrow> Inl e
                 | Inr code \<Rightarrow>
                (case subscript parsed_content ''message'' of
                   Inl e \<Rightarrow> Inl e
                 | Inr msg \<Rightarrow>
                     Inr (Some (''\<newline>        '' @ siren
                         @ '' An Analyst API error has occurred '' @ siren
                         @ ''\<newline>        \<newline>        * response code: `'' @ str_int (status resp)
                         @ ''`\<newline>        * request-id: `'' @ py_str (str_other h) r
                         @ ''`\<newline>        * error code: `'' @ py_str (str_other h) code
                         @ ''`\<newline>        \<newline>        Message:\<newline>        ```\<newline>        ''
                         @ py_str (str_other h) msg
                         @ ''\<newline>        ```\<newline>        '')))))),
          s'))"


section \<open>Session reset\<close>

definition reset_session_state :: "state \<Rightarrow> state" where
  "reset_session_state s =
     s\<lparr>messages := Some [],
       active_suggestion := Some JNull,
       warnings := Some [],
       form_submitted := Some Map.empty\<rparr>"

section \<open>The feedback submitter\<close>

definition display_feedback_section :: "host \<Rightarrow> json \<Rightarrow> state \<Rightarrow> outcome \<times> state" where
  "display_feedback_section h request_id s0 =
     (let s = emit ''popover'' (JStr ''Query Feedback'') s0
      in case form_submitted s of
           None \<Rightarrow> (Raised (AttributeError ''form_submitted''), s)
         | Some fs \<Rightarrow>
        (case dict_key request_id of
           Inl e \<Rightarrow> (Raised e, s)
         | Inr k \<Rightarrow>
        (case fs k of
           None \<Rightarrow>
             (let s1 = emit ''form'' (JStr (''feedback_form_'' @ py_str (str_other h) request_id)) s;
                  s2 = emit ''radio'' (JStr ''Rate the generated SQL'') s1;
                  positive = feedback_radio_first h request_id;
                  submit_disabled = (case fs k of None \<Rightarrow> False | Some r \<Rightarrow> truthy r);
                  s3 = emit ''text_input'' (JStr ''Optional feedback message'') s2;
                  feedback_message = feedback_text h request_id;
                  s4 = emit ''form_submit_button'' (JBool submit_disabled) s3;
                  submitted = (feedback_submit h request_id \<and> \<not> submit_disabled)
              in if submitted then
                   (case submit_feedback h request_id positive feedback_message s4 of
                      (Inl e, s5) \<Rightarrow> (Raised e, s5)
                    | (Inr err_msg, s5) \<Rightarrow>
                        (Rerun,
                         s5\<lparr>form_submitted :=
                               Some (fs(k \<mapsto> JObj [(''error'',
                                  (case err_msg of None \<Rightarrow> JNull | Some e \<Rightarrow> JStr e))])),
                             popover_open := Some False\<rparr>))
                 else (Done, s4))
         | Some r \<Rightarrow>
             (case subscript r ''error'' of
                Inl e \<Rightarrow> (Raised e, s)
              | Inr err \<Rightarrow>
                  if err = JNull then (Done, emit ''success'' (JStr ''Feedback submitted'') s)
                  else (Done, emit ''error'' err s)))))"

section \<open>The content renderer\<close>

definition display_sql_confidence :: "host \<Rightarrow> json \<Rightarrow> state \<Rightarrow> outcome \<times> state" where
  "display_sql_confidence h confidence s =
     (if confidence = JNull then (Done, s)
      else
        (case subscript confidence ''verified_query_used'' of
           Inl e \<Rightarrow> (Raised e, s)
         | Inr verified_query_used \<Rightarrow>
        (let s1 = emit ''container'' JNull (emit ''popover'' (JStr ''Verified Query Used'') s)
         in if verified_query_used = JNull then
              (Done, emit ''text'' (JStr
                 ''There is no query from the Verified Query Repository used to generate this SQL answer'')
                 s1)
            else
        (case subscript verified_query_used ''name'' of
           Inl e \<Rightarrow> (Raised e, s1)
         | Inr name \<Rightarrow>
        (let s2 = emit ''text'' (JStr (''Name: '' @ py_str (str_other h) name)) s1
         in case subscript verified_query_used ''question'' of
           Inl e \<Rightarrow> (Raised e, s2)
         | Inr question \<Rightarrow>
        (let s3 = emit ''text'' (JStr (''Question: '' @ py_str (str_other h) question)) s2
         in case subscript verified_query_used ''verified_by'' of
           Inl e \<Rightarrow> (Raised e, s3)
         | Inr verified_by \<Rightarrow>
        (let s4 = emit ''text'' (JStr (''Verified by: '' @ py_str (str_other h) verified_by)) s3
         in case subscript verified_query_used ''verified_at'' of
           Inl e \<Rightarrow> (Raised e, s4)
         | Inr verified_at \<Rightarrow>
        (case fromtimestamp h verified_at of
           Inl e \<Rightarrow> (Raised e, s4)
         | Inr stamp \<Rightarrow>
        (let s5 = emit ''text'' (JStr ''SQL query:'')
                    (emit ''text'' (JStr (''Verified at: '' @ stamp)) s4)
         in case subscript verified_query_used ''sql'' of
           Inl e \<Rightarrow> (Raised e, s5)
         | Inr q \<Rightarrow> (Done, emit ''code'' q s5))))))))))"

definition get_query_exec_result ::
  "host \<Rightarrow> json \<Rightarrow> py_error + dataframe option \<times> string option" where
  "get_query_exec_result h query =
     (case sql_to_pandas h query of
        SqlData df \<Rightarrow> Inr (Some df, None)
      | SnowparkSQLException e \<Rightarrow> Inr (None, Some e)
      | SqlRaises e \<Rightarrow> Inl e)"

definition df_empty :: "dataframe \<Rightarrow> bool" where
  "df_empty df = (columns df = [] \<or> rows df = [])"

text \<open>
  \<^verbatim>\<open>display_charts_tab\<close> only drives the data frame and the chart widgets and touches no
  key of the session: it is the host's \<open>charts_tab\<close>, which gives the widgets drawn or
  the exception raised.
\<close>

definition display_sql_query ::
  "host \<Rightarrow> json \<Rightarrow> nat \<Rightarrow> json \<Rightarrow> json \<Rightarrow> state \<Rightarrow> outcome \<times> state" where
  "display_sql_query h sql message_index confidence request_id s =
     (let s1 = emit ''code'' sql (emit ''expander'' (JStr ''SQL Query'') s)
      in case display_sql_confidence h confidence s1 of
           (Done, s2) \<Rightarrow>
             (let s3 = emit ''spinner'' (JStr ''Running SQL...'')
                         (emit ''expander'' (JStr ''Results'') s2)
              in case get_query_exec_result h sql of
                   Inl e \<Rightarrow> (Raised e, s3)
                 | Inr (df_opt, err_msg) \<Rightarrow>
                (case
                   (case df_opt of
                      None \<Rightarrow>
                        (Done, emit ''error'' (JStr (''Could not execute generated SQL query. Error: ''
                           @ (case err_msg of None \<Rightarrow> ''None'' | Some e \<Rightarrow> e))) s3)
                    | Some df \<Rightarrow>
                        if df_empty df then (Done, emit ''write'' (JStr ''Query returned no data'') s3)
                        else
                          (let s4 = emit ''dataframe'' (JArr (map JArr (rows df)))
                                      (emit ''tabs'' JNull s3)
                           in case charts_tab h df message_index of
                                Inl e \<Rightarrow> (Raised e, s4)
                              | Inr ws \<Rightarrow> (Done, s4\<lparr>screen := screen s4 @ ws\<rparr>)))
                 of
                   (Done, s5) \<Rightarrow>
                     if truthy request_id then display_feedback_section h request_id s5
                     else (Done, s5)
                 | r \<Rightarrow> r))
         | r \<Rightarrow> r)"

text \<open>The loop over the suggestions of one block; \<open>j\<close> is \<^verbatim>\<open>suggestion_index\<close>.\<close>

fun suggestion_buttons :: "host \<Rightarrow> nat \<Rightarrow> nat \<Rightarrow> json list \<Rightarrow> state \<Rightarrow> state" where
  "suggestion_buttons h message_index j [] s = s"
| "suggestion_buttons h message_index j (suggestion # rest) s =
     (let s1 = emit ''button'' suggestion s;
          s2 = (if suggestion_button h message_index j
                then s1\<lparr>active_suggestion := Some suggestion\<rparr> else s1)
      in suggestion_buttons h message_index (Suc j) rest s2)"

text \<open>One pass of the loop body of \<^verbatim>\<open>display_message\<close>.\<close>

definition display_item :: "host \<Rightarrow> nat \<Rightarrow> json \<Rightarrow> json \<Rightarrow> state \<Rightarrow> outcome \<times> state" where
  "display_item h message_index request_id item s =
     (case subscript item ''type'' of
        Inl e \<Rightarrow> (Raised e, s)
      | Inr ty \<Rightarrow>
          if ty = JStr ''text'' then
            (case subscript item ''text'' of
               Inl e \<Rightarrow> (Raised e, s)
             | Inr txt \<Rightarrow> (Done, emit ''markdown'' txt s))
          else if ty = JStr ''suggestions'' then
            (case subscript item ''suggestions'' of
               Inl e \<Rightarrow> (Raised e, s)
             | Inr sugg \<Rightarrow>
                (case py_iter sugg of
                   Inl e \<Rightarrow> (Raised e, s)
                 | Inr suggestions \<Rightarrow> (Done, suggestion_buttons h message_index 0 suggestions s)))
          else if ty = JStr ''sql'' then
            (case subscript item ''statement'' of
               Inl e \<Rightarrow> (Raised e, s)
             | Inr statement \<Rightarrow>
                (case subscript item ''confidence'' of
                   Inl e \<Rightarrow> (Raised e, s)
                 | Inr confidence \<Rightarrow>
                     display_sql_query h statement message_index confidence request_id s))
          else (Done, s))"

fun display_items :: "host \<Rightarrow> nat \<Rightarrow> json \<Rightarrow> json list \<Rightarrow> state \<Rightarrow> outcome \<times> state" where
  "display_items h message_index request_id [] s = (Done, s)"
| "display_items h message_index request_id (item # items) s =
     (case display_item h message_index request_id item s of
        (Done, s') \<Rightarrow> display_items h message_index request_id items s'
      | r \<Rightarrow> r)"

text \<open>\<open>request_id\<close> is \<open>JNull\<close> where the caller leaves the argument out.\<close>

definition display_message :: "host \<Rightarrow> json \<Rightarrow> nat \<Rightarrow> json \<Rightarrow> state \<Rightarrow> outcome \<times> state" where
  "display_message h content_blocks message_index request_id s =
     (case py_iter content_blocks of
        Inl e \<Rightarrow> (Raised e, s)
      | Inr items \<Rightarrow> display_items h message_index request_id items s)"

text \<open>The loop of \<^verbatim>\<open>display_conversation\<close> from index \<open>idx\<close> on.\<close>

fun display_turns :: "host \<Rightarrow> nat \<Rightarrow> json list \<Rightarrow> state \<Rightarrow> outcome \<times> state" where
  "display_turns h idx [] s = (Done, s)"
| "display_turns h idx (message # rest) s =
     (case subscript message ''role'' of
        Inl e \<Rightarrow> (Raised e, s)
      | Inr role \<Rightarrow>
     (case subscript message ''content'' of
        Inl e \<Rightarrow> (Raised e, s)
      | Inr content_blocks \<Rightarrow>
     (case
        (let s1 = emit ''chat_message'' role s
         in if role = JStr ''analyst'' then
              (case subscript message ''request_id'' of
                 Inl e \<Rightarrow> (Raised e, s1)
               | Inr request_id \<Rightarrow> display_message h content_blocks idx request_id s1)
            else display_message h content_blocks idx JNull s1)
      of
        (Done, s2) \<Rightarrow> display_turns h (Suc idx) rest s2
      | r \<Rightarrow> r)))"

definition display_conversation :: "host \<Rightarrow> state \<Rightarrow> outcome \<times> state" where
  "display_conversation h s =
     (case messages s of
        None \<Rightarrow> (Raised (AttributeError ''messages''), s)
      | Some ms \<Rightarrow> display_turns h 0 ms s)"


section \<open>The turn orchestrator\<close>

text \<open>Lines 166--169: the turn of the user, and its content.\<close>

definition user_content :: "json \<Rightarrow> json" where
  "user_content prompt = JArr [JObj [(''type'', JStr ''text''), (''text'', prompt)]]"

definition user_message :: "json \<Rightarrow> json" where
  "user_message prompt = JObj [(''role'', JStr ''user''), (''content'', user_content prompt)]"

text \<open>Lines 183--191: the turn of the analyst, from the envelope and the error string.\<close>

definition analyst_message :: "json \<Rightarrow> string option \<Rightarrow> py_error + json" where
  "analyst_message response1 error_msg1 =
     (case
        (case error_msg1 of
           None \<Rightarrow>
             (case subscript response1 ''message'' of
                Inl e \<Rightarrow> Inl e
              | Inr m \<Rightarrow> subscript m ''content'')
         | Some err \<Rightarrow> Inr (JArr [JObj [(''type'', JStr ''text''), (''text'', JStr err)]]))
      of
        Inl e \<Rightarrow> Inl e
      | Inr c \<Rightarrow>
          (case subscript response1 ''request_id'' of
             Inl e \<Rightarrow> Inl e
           | Inr rid \<Rightarrow>
               Inr (JObj [(''role'', JStr ''analyst''), (''content'', c), (''request_id'', rid)])))"

text \<open>Lines 195--198: the warnings of the envelope extend the warning list.\<close>

definition extend_warnings :: "json \<Rightarrow> state \<Rightarrow> outcome \<times> state" where
  "extend_warnings response1 s =
     (case py_in ''warnings'' response1 of
        Inl e \<Rightarrow> (Raised e, s)
      | Inr present \<Rightarrow>
          if present then
            (case warnings s of
               None \<Rightarrow> (Raised (AttributeError ''warnings''), s)
             | Some ws \<Rightarrow>
                (case subscript response1 ''warnings'' of
                   Inl e \<Rightarrow> (Raised e, s)
                 | Inr w \<Rightarrow>
                    (case py_iter w of
                       Inl e \<Rightarrow> (Raised e, s)
                     | Inr new \<Rightarrow> (Done, s\<lparr>warnings := Some (ws @ new)\<rparr>))))
          else (Done, s))"

definition process_user_input :: "host \<Rightarrow> json \<Rightarrow> state \<Rightarrow> outcome \<times> state" where
  "process_user_input h prompt s0 =
     (let s1 = s0\<lparr>warnings := Some []\<rparr>
      in case messages s1 of
           None \<Rightarrow> (Raised (AttributeError ''messages''), s1)
         | Some ms \<Rightarrow>
        (let s2 = s1\<lparr>messages := Some (ms @ [user_message prompt])\<rparr>;
             s3 = emit ''chat_message'' (JStr ''user'') s2;
             user_msg_index = length (ms @ [user_message prompt]) - 1
         in case display_message h (user_content prompt) user_msg_index JNull s3 of
              (Done, s4) \<Rightarrow>
                (let s5 = emit ''spinner'' (JStr ''Waiting for Graph Analyst's response (Query 1/2)...'')
                            (emit ''chat_message'' (JStr ''analyst'') s4)
                 in case messages s5 of
                      None \<Rightarrow> (Raised (AttributeError ''messages''), s5)
                    | Some sent \<Rightarrow>
                   (case create_relevant_graph_tables h sent s5 of
                      (Inl e, s6) \<Rightarrow> (Raised e, s6)
                    | (Inr (response1, error_msg1), s6) \<Rightarrow>
                   (case analyst_message response1 error_msg1 of
                      Inl e \<Rightarrow> (Raised e, s6)
                    | Inr analyst_message1 \<Rightarrow>
                   (let s7 = (if error_msg1 \<noteq> None
                              then s6\<lparr>fire_API_error_notify := Some True\<rparr> else s6)
                    in case extend_warnings response1 s7 of
                         (Done, s8) \<Rightarrow>
                           (case messages s8 of
                              None \<Rightarrow> (Raised (AttributeError ''messages''), s8)
                            | Some ms' \<Rightarrow>
                                (Rerun, s8\<lparr>messages := Some (ms' @ [analyst_message1])\<rparr>))
                       | r \<Rightarrow> r))))
            | r \<Rightarrow> r))"

section \<open>The script\<close>

definition setup_message :: string where
  \<open>setup_message =
     ''\<newline>''
     @ ''    You are an expert Neo4j Graph Analytics for Snowflake SQL generator. Your task is to interpret user requests for graph analysis and generate a single, complete SQL query.\<newline>''
     @ ''\<newline>''
     @ ''    **Key Guidelines and Constraints:**\<newline>''
     @ ''\<newline>''
     @ ''    1.  **Output Format:** Your response MUST be a valid SQL query for Neo4j Graph Analytics for Snowflake. Do not include any conversational text, explanations, or code blocks other than the SQL query itself.\<newline>''
     @ ''    2.  **Algorithm Selection:**\<newline>''
     @ ''        * Choose the most appropriate graph algorithm from the available list: `BETWEENNESS_CENTRALITY`, `DEGREE_CENTRALITY`, `DIJKSTRA_SINGLE_SOURCE_SHORTEST_PATH`, `DIJKSTRA_SOURCE_TARGET_SHORTEST_PATH`, `FASTRP`, `FASTPATH`, `GRAPHSAGE`, `K_NEAREST_NEIGHBORS`, `LOUVAIN`, `NODE_CLASSIFICATION_TRAINING`, `NODE_CLASSIFICATION_PREDICTION`, `NODE_EMBEDDINGS_TRAINING`, `NODE_EMBEDDINGS_PREDICTION`, `NODE_SIMILARITY`, `PAGERANK`, `TRIANGLE_COUNT`, `WEAKLY_CONNECTED_COMPONENTS`.\<newline>''
     @ ''        * Prioritize algorithms that directly address community detection, centrality, pathfinding, or embeddings based on the user's intent.\<newline>''
     @ ''    3.  **SQL Structure:** The SQL query will adhere to the following pattern for calling Neo4j Graph Analytics:\<newline>''
     @ ''\<newline>''
     @ ''        ```sql\<newline>''
     @ ''        CALL NEO4J_GRAPH_ANALYTICS.ADMIN.RUN_JOB(\<newline>''
     @ ''            'YOUR_APP_NAME',\<newline>''
     @ ''            '<ALGORITHM_NAME>',\<newline>''
     @ ''            OBJECT_CONSTRUCT(\<newline>''
     @ ''                'node_table', 'YOUR_NODES_TABLE',\<newline>''
     @ ''                'relationship_table', 'YOUR_RELATIONSHIPS_TABLE',\<newline>''
     @ ''                'output_table', 'YOUR_OUTPUT_TABLE'\<newline>''
     @ ''                -- Add algorithm-specific parameters here, e.g., 'source_node_id', 'target_node_id', 'weight_property', 'iterations', 'embedding_size', etc.\<newline>''
     @ ''            )\<newline>''
     @ ''        );\<newline>''
     @ ''        ```\<newline>''
     @ ''        * `YOUR_APP_NAME` should always be `NEO4J_GRAPH_ANALYTICS`.\<newline>''
     @ ''        * `<ALGORITHM_NAME>` must be one of the exact algorithm names listed in guideline 2, enclosed in single quotes.\<newline>''
     @ ''        * `YOUR_NODES_TABLE` and `YOUR_RELATIONSHIPS_TABLE` will be identified from the provided semantic context. These should be fully qualified (e.g., `DATABASE.SCHEMA.TABLE_NAME`).\<newline>''
     @ ''        * `YOUR_OUTPUT_TABLE` should be a new, descriptive table name in the format `APP_SCHEMA.ALGORITHM_OUTPUT_<TIMESTAMP_OR_DESCRIPTIVE_SUFFIX>`. For example, `GRAPH_APP_RESULTS.LOUVAIN_COMMUNITIES_202506041621`. Ensure the output table name is distinct and descriptive.\<newline>''
     @ ''        * You MUST infer and include any necessary algorithm-specific parameters within the `OBJECT_CONSTRUCT` based on the user's request and the semantic context. Common parameters include:\<newline>''
     @ ''            * `source_node_id` (for shortest path, typically a column from the nodes table)\<newline>''
     @ ''            * `target_node_id` (for shortest path, typically a column from the nodes table)\<newline>''
     @ ''            * `weight_property` (for weighted algorithms, typically a numeric column from the relationships table)\<newline>''
     @ ''            * `iterations` (for iterative algorithms like PageRank)\<newline>''
     @ ''            * `embedding_size` (for embedding algorithms)\<newline>''
     @ ''            * `label_property` (for node classification)\<newline>''
     @ ''            * `relationship_type_property` (if relationships have types)\<newline>''
     @ ''            * `node_id_property` (if node IDs are not the primary key)\<newline>''
     @ ''            * `source_node_property` (for relationship table mapping, e.g., 'FROM_NODE_ID')\<newline>''
     @ ''            * `target_node_property` (for relationship table mapping, e.g., 'TO_NODE_ID')\<newline>''
     @ ''    4.  **Semantic Context Usage:** The user will provide a "semantic file" containing metadata about available tables and their relationships. You MUST parse this context to:\<newline>''
     @ ''        * Identify appropriate node and relationship tables for the requested analysis.\<newline>''
     @ ''        * Infer column names for node IDs, relationship source/target, and any properties (like weights) needed by the chosen algorithm.\<newline>''
     @ ''        * **Crucially, only use tables and columns explicitly defined in the semantic context.** If a suitable table or column is not found for a requested analysis, indicate that the request cannot be fulfilled with the current data schema.\<newline>''
     @ ''    5.  **Error Handling (Implicit):** If a user's request cannot be translated into a valid Neo4j Graph Analytics SQL query given the available algorithms and semantic context, output a clear message indicating why the query cannot be generated and what information is missing. For example: "Error: Cannot generate SQL. The request for [ALGORITHM] requires a [PROPERTY/TABLE] that is not defined in the provided semantic context."\<newline>''
     @ ''\<newline>''
     @ ''    **Semantic File Format Expectation (for LLM to parse):**\<newline>''
     @ ''\<newline>''
     @ ''    The semantic file will be provided in a JSON-like format within the user's prompt. It will describe databases, schemas, tables, columns, and their inferred roles (e.g., `node_table`, `relationship_table`, `node_id`, `relationship_source_id`, `relationship_target_id`, `properties`).\<newline>''\<close>

definition system_message :: json where
  "system_message =
     JObj [(''role'', JStr ''system''),
           (''content'', JArr [JObj [(''type'', JStr ''text''), (''text'', JStr setup_message)]])]"

text \<open>
  The select box keeps the key \<^verbatim>\<open>selected_semantic_model_path\<close>: it sets the key to the
  first option when the key is not there yet.
\<close>

definition show_header_and_sidebar :: "host \<Rightarrow> state \<Rightarrow> state" where
  "show_header_and_sidebar h s =
     (let s1 = emit ''markdown''
                 (JStr ''Welcome to Cortex Analyst! Type your questions below to interact with your data. '')
                 (emit ''title'' (JStr ''Cortex Analyst'') s);
          s2 = emit ''selectbox'' (JStr ''Selected semantic model:'') s1;
          s3 = (case selected_semantic_model_path s2 of
                  None \<Rightarrow> s2\<lparr>selected_semantic_model_path := Some (AVAILABLE_SEMANTIC_MODELS_PATHS ! 0)\<rparr>
                | Some p \<Rightarrow> s2);
          s4 = emit ''button'' (JStr ''Clear Chat History'')
                 (emit ''columns'' JNull (emit ''divider'' JNull s3))
      in if clear_chat_history h then reset_session_state s4 else s4)"

definition handle_user_inputs :: "host \<Rightarrow> state \<Rightarrow> outcome \<times> state" where
  "handle_user_inputs h s0 =
     (let s = emit ''chat_input'' (JStr ''What is your question?'') s0
      in case chat_input h of
           Some user_input \<Rightarrow>
             if user_input \<noteq> [] then process_user_input h (JStr user_input) s
             else
               (case active_suggestion s of
                  None \<Rightarrow> (Raised (AttributeError ''active_suggestion''), s)
                | Some suggestion \<Rightarrow>
                    if suggestion \<noteq> JNull
                    then process_user_input h suggestion (s\<lparr>active_suggestion := Some JNull\<rparr>)
                    else (Done, s))
         | None \<Rightarrow>
             (case active_suggestion s of
                None \<Rightarrow> (Raised (AttributeError ''active_suggestion''), s)
              | Some suggestion \<Rightarrow>
                  if suggestion \<noteq> JNull
                  then process_user_input h suggestion (s\<lparr>active_suggestion := Some JNull\<rparr>)
                  else (Done, s)))"

definition handle_error_notifications :: "state \<Rightarrow> state" where
  "handle_error_notifications s =
     (if fire_API_error_notify s = Some True
      then (emit ''toast'' (JStr ''An API error has occured!'') s)\<lparr>fire_API_error_notify := Some False\<rparr>
      else s)"

text \<open>The loop of \<^verbatim>\<open>display_warnings\<close>.\<close>

fun warning_boxes :: "json list \<Rightarrow> state \<Rightarrow> outcome \<times> state" where
  "warning_boxes [] s = (Done, s)"
| "warning_boxes (warning # rest) s =
     (case subscript warning ''message'' of
        Inl e \<Rightarrow> (Raised e, s)
      | Inr m \<Rightarrow> warning_boxes rest (emit ''warning'' m s))"

definition display_warnings :: "state \<Rightarrow> outcome \<times> state" where
  "display_warnings s =
     (case warnings s of
        None \<Rightarrow> (Raised (AttributeError ''warnings''), s)
      | Some ws \<Rightarrow> warning_boxes ws s)"

text \<open>
  \<open>main_start\<close> is lines 85--95 of \<^verbatim>\<open>main\<close>: the session is set up, and an empty
  transcript receives the system turn and the question the program asks by itself.
  \<open>main_render\<close> is lines 96--99.
\<close>

definition main_start :: "host \<Rightarrow> state \<Rightarrow> outcome \<times> state" where
  "main_start h s0 =
     (let s1 = (if messages s0 = None then reset_session_state s0 else s0);
          s2 = show_header_and_sidebar h s1
      in case messages s2 of
           None \<Rightarrow> (Raised (AttributeError ''messages''), s2)
         | Some ms \<Rightarrow>
             if length ms = 0 then
               process_user_input h (JStr ''What questions can I ask?'')
                 (s2\<lparr>messages := Some (ms @ [system_message])\<rparr>)
             else (Done, s2))"

definition main_render :: "host \<Rightarrow> state \<Rightarrow> outcome \<times> state" where
  "main_render h s =
     (case display_conversation h s of
        (Done, s1) \<Rightarrow>
          (case handle_user_inputs h s1 of
             (Done, s2) \<Rightarrow> display_warnings (handle_error_notifications s2)
           | r \<Rightarrow> r)
      | r \<Rightarrow> r)"

definition main :: "host \<Rightarrow> state \<Rightarrow> outcome \<times> state" where
  "main h s =
     (case main_start h s of
        (Done, s1) \<Rightarrow> main_render h s1
      | r \<Rightarrow> r)"

text \<open>
  One run of the script. When the user has picked another semantic model, the widget host
  stores the choice and calls \<^verbatim>\<open>on_change=reset_session_state\<close> before the script body.
  The screen is drawn anew in every run.
\<close>

definition script_run :: "host \<Rightarrow> state \<Rightarrow> outcome \<times> state" where
  "script_run h s =
     main h
       ((case model_selected h of
           None \<Rightarrow> s
         | Some p \<Rightarrow> reset_session_state (s\<lparr>selected_semantic_model_path := Some p\<rparr>))
        \<lparr>screen := []\<rparr>)"

text \<open>The state of a session that has not run the script yet: no key is set.\<close>

definition fresh :: state where
  "fresh =
     \<lparr>messages = None, active_suggestion = None, warnings = None, form_submitted = None,
      fire_API_error_notify = None, popover_open = None, selected_semantic_model_path = None,
      api_log = [], screen = []\<rparr>"


text \<open>
  The cycles of a session one after the other: each entry is the host of the run and the
  prompt that \<^verbatim>\<open>handle_user_inputs\<close> hands to \<^verbatim>\<open>process_user_input\<close>.
\<close>

fun cycles :: "(host \<times> json) list \<Rightarrow> state \<Rightarrow> state" where
  "cycles [] s = s"
| "cycles ((h, prompt) # rest) s = cycles rest (snd (process_user_input h prompt s))"

section \<open>Envelopes the program can take in\<close>

text \<open>
  The subscripts the program applies to an envelope decide which responses a cycle can
  merge. A success envelope has \<^verbatim>\<open>message.content\<close> and \<^verbatim>\<open>request_id\<close>; a failure
  envelope has \<^verbatim>\<open>request_id\<close>, \<^verbatim>\<open>error_code\<close> and \<^verbatim>\<open>message\<close>; \<^verbatim>\<open>warnings\<close>, where
  present, can be iterated.
\<close>

definition success_envelope :: "json \<Rightarrow> bool" where
  "success_envelope env =
     (case subscript env ''message'' of
        Inl e \<Rightarrow> False
      | Inr m \<Rightarrow> \<not> isl (subscript m ''content'') \<and> \<not> isl (subscript env ''request_id''))"

definition failure_envelope :: "json \<Rightarrow> bool" where
  "failure_envelope env =
     (\<not> isl (subscript env ''request_id'') \<and> \<not> isl (subscript env ''error_code'')
      \<and> \<not> isl (subscript env ''message''))"

definition warnings_iterable :: "json \<Rightarrow> bool" where
  "warnings_iterable env =
     (case subscript env ''warnings'' of
        Inl e \<Rightarrow> True
      | Inr w \<Rightarrow> \<not> isl (py_iter w))"

definition well_formed :: "api_response \<Rightarrow> bool" where
  "well_formed resp =
     (case content resp of
        Inl e \<Rightarrow> False
      | Inr env \<Rightarrow>
          warnings_iterable env
          \<and> (if status resp < 400 then success_envelope env else failure_envelope env))"

text \<open>The warnings an envelope carries, none when it has no \<^verbatim>\<open>warnings\<close> entry.\<close>

definition envelope_warnings :: "json \<Rightarrow> json list" where
  "envelope_warnings env =
     (case subscript env ''warnings'' of
        Inl e \<Rightarrow> []
      | Inr w \<Rightarrow> (case py_iter w of Inl e \<Rightarrow> [] | Inr new \<Rightarrow> new))"

section \<open>Sample hosts and envelopes\<close>

text \<open>A host that answers every request with \<open>resp\<close>; the user touches no widget.\<close>

definition replying :: "api_response \<Rightarrow> host" where
  "replying resp =
     \<lparr>send_snow_api_request = (\<lambda>req. resp),
      str_other = (\<lambda>v. ''?''),
      sql_to_pandas = (\<lambda>q. SnowparkSQLException ''no warehouse''),
      fromtimestamp = (\<lambda>v. Inl TypeError),
      charts_tab = (\<lambda>df i. Inr []),
      chat_input = None,
      clear_chat_history = False,
      model_selected = None,
      suggestion_button = (\<lambda>i j. False),
      feedback_radio_first = (\<lambda>rid. True),
      feedback_text = (\<lambda>rid. []),
      feedback_submit = (\<lambda>rid. False)\<rparr>"

definition hi_envelope :: json where
  "hi_envelope =
     JObj [(''message'', JObj [(''content'', JArr [JObj [(''type'', JStr ''text''), (''text'', JStr ''hi'')]])]),
           (''request_id'', JStr ''r2'')]"

definition bad_envelope :: json where
  "bad_envelope =
     JObj [(''request_id'', JStr ''r1''), (''error_code'', JStr ''E1''), (''message'', JStr ''bad'')]"

definition warning_envelope :: "string \<Rightarrow> json" where
  "warning_envelope w =
     JObj [(''message'', JObj [(''content'', JArr [])]), (''request_id'', JStr ''r3''),
           (''warnings'', JArr [JObj [(''message'', JStr w)]])]"

definition answer :: "int \<Rightarrow> json \<Rightarrow> api_response" where
  "answer code env = \<lparr>status = code, content = Inr env\<rparr>"

text \<open>A host whose user presses the submit button of every feedback form it shows.\<close>

definition submitting :: host where
  "submitting =
     (replying \<lparr>status = 200, content = Inl JSONDecodeError\<rparr>)\<lparr>feedback_submit := (\<lambda>rid. True)\<rparr>"

definition sql_block :: "(string \<times> json) list \<Rightarrow> json" where
  "sql_block extra = JObj ([(''type'', JStr ''sql''), (''statement'', JStr ''SELECT 1'')] @ extra)"

text \<open>A host that answers the completion endpoint with \<open>r1\<close> and every other with \<open>r2\<close>.\<close>

definition routing :: "api_response \<Rightarrow> api_response \<Rightarrow> host" where
  "routing r1 r2 =
     (replying r1)\<lparr>send_snow_api_request :=
        (\<lambda>req. if path req = API_COMPLETE_ENDPOINT then r1 else r2)\<rparr>"


section \<open>Properties of the remote client and of the reset\<close>

lemma sublist_skip: "sublist x ys \<Longrightarrow> sublist x (p @ ys) = True"
  unfolding sublist_def by (metis append.assoc)

lemma str_int_500: "str_int 500 = ''500''" "str_int 302 = ''302''"
  by (simp_all add: str_int_def str_nat.simps)

text \<open>
  Claim C9. Whatever the session held before, after \<^verbatim>\<open>reset_session_state\<close> the turn
  sequence is empty, the warning list is empty, the map of feedback records is empty and
  no suggestion is pending (the key holds \<^verbatim>\<open>None\<close>).
\<close>

theorem reset_session_state_clears:
  "messages (reset_session_state s) = Some []
   \<and> warnings (reset_session_state s) = Some []
   \<and> form_submitted (reset_session_state s) = Some Map.empty
   \<and> active_suggestion (reset_session_state s) = Some JNull"
  by (simp add: reset_session_state_def)

text \<open>
  Claim C8. \<^verbatim>\<open>submit_feedback\<close> returns \<^verbatim>\<open>None\<close> exactly when the status is 200. For
  any other status, also one between 200 and 400, and an envelope with \<^verbatim>\<open>request_id\<close>,
  \<^verbatim>\<open>error_code\<close> and \<^verbatim>\<open>message\<close>, it returns an error string that holds the status and
  these three fields.
\<close>

theorem submit_feedback_status:
  assumes "send_snow_api_request h (feedback_request rid positive feedback_message) = resp"
  shows "(fst (submit_feedback h rid positive feedback_message s) = Inr None
            \<longleftrightarrow> status resp = 200)
       \<and> (status resp \<noteq> 200 \<longrightarrow> content resp = Inr env
            \<longrightarrow> subscript env ''request_id'' = Inr r
            \<longrightarrow> subscript env ''error_code'' = Inr code
            \<longrightarrow> subscript env ''message'' = Inr msg
            \<longrightarrow> (\<exists>e. fst (submit_feedback h rid positive feedback_message s) = Inr (Some e)
                   \<and> sublist (str_int (status resp)) e
                   \<and> sublist (py_str (str_other h) r) e
                   \<and> sublist (py_str (str_other h) code) e
                   \<and> sublist (py_str (str_other h) msg) e))"
proof (intro conjI impI)
  show "(fst (submit_feedback h rid positive feedback_message s) = Inr None) = (status resp = 200)"
    using assms by (auto simp: submit_feedback_def Let_def split: sum.splits)
next
  assume "status resp \<noteq> 200" "content resp = Inr env" "subscript env ''request_id'' = Inr r"
    "subscript env ''error_code'' = Inr code" "subscript env ''message'' = Inr msg"
  then show "\<exists>e. fst (submit_feedback h rid positive feedback_message s) = Inr (Some e)
                   \<and> sublist (str_int (status resp)) e
                   \<and> sublist (py_str (str_other h) r) e
                   \<and> sublist (py_str (str_other h) code) e
                   \<and> sublist (py_str (str_other h) msg) e"
    using assms by (simp add: submit_feedback_def Let_def sublist_Cons_right sublist_skip)
qed

text \<open>Status 200 with a body that is no JSON, and status 302 with an error envelope.\<close>

theorem submit_feedback_status_witness:
  "fst (submit_feedback (replying \<lparr>status = 200, content = Inl JSONDecodeError\<rparr>)
          (JStr ''r2'') True [] fresh) = Inr None
   \<and> (\<exists>e. fst (submit_feedback (replying (answer 302 bad_envelope)) (JStr ''r2'') True [] fresh)
             = Inr (Some e)
          \<and> sublist ''302'' e \<and> sublist ''r1'' e \<and> sublist ''E1'' e \<and> sublist ''bad'' e)"
  using submit_feedback_status
          [of "replying \<lparr>status = 200, content = Inl JSONDecodeError\<rparr>" "JStr ''r2''" True "[]"
              "\<lparr>status = 200, content = Inl JSONDecodeError\<rparr>" fresh]
        submit_feedback_status
          [of "replying (answer 302 bad_envelope)" "JStr ''r2''" True "[]"
              "answer 302 bad_envelope" fresh bad_envelope "JStr ''r1''" "JStr ''E1''" "JStr ''bad''"]
  by (simp add: replying_def answer_def bad_envelope_def str_int_500)

text \<open>
  Claim C2, for each of the two calls with the response that call receives. Let the body of
  the response be JSON. With a status below 400 the call returns the envelope and no
  error. With a status of 400 or more and a body that holds \<^verbatim>\<open>request_id\<close>,
  \<^verbatim>\<open>error_code\<close> and \<^verbatim>\<open>message\<close>, the call returns the envelope and an error string
  that holds the status and the three fields. In both cases the call returns and does not
  raise. (\<^verbatim>\<open>get_analyst_response\<close> reads the selected semantic model before it sends.)
\<close>

theorem remote_call_result:
  "(\<forall>resp env.
      send_snow_api_request h (complete_request msgs) = resp \<longrightarrow> content resp = Inr env \<longrightarrow>
        (status resp < 400 \<longrightarrow> fst (create_relevant_graph_tables h msgs s) = Inr (env, None))
      \<and> (\<forall>rid code msg.
            400 \<le> status resp \<longrightarrow> subscript env ''request_id'' = Inr rid \<longrightarrow>
            subscript env ''error_code'' = Inr code \<longrightarrow> subscript env ''message'' = Inr msg \<longrightarrow>
              (\<exists>e. fst (create_relevant_graph_tables h msgs s) = Inr (env, Some e)
                 \<and> sublist (str_int (status resp)) e
                 \<and> sublist (py_str (str_other h) rid) e
                 \<and> sublist (py_str (str_other h) code) e
                 \<and> sublist (py_str (str_other h) msg) e)))
   \<and> (\<forall>model_path resp env.
      selected_semantic_model_path s = Some model_path \<longrightarrow>
      send_snow_api_request h (message_request msgs model_path) = resp \<longrightarrow>
      content resp = Inr env \<longrightarrow>
        (status resp < 400 \<longrightarrow> fst (get_analyst_response h msgs s) = Inr (env, None))
      \<and> (\<forall>rid code msg.
            400 \<le> status resp \<longrightarrow> subscript env ''request_id'' = Inr rid \<longrightarrow>
            subscript env ''error_code'' = Inr code \<longrightarrow> subscript env ''message'' = Inr msg \<longrightarrow>
              (\<exists>e. fst (get_analyst_response h msgs s) = Inr (env, Some e)
                 \<and> sublist (str_int (status resp)) e
                 \<and> sublist (py_str (str_other h) rid) e
                 \<and> sublist (py_str (str_other h) code) e
                 \<and> sublist (py_str (str_other h) msg) e)))"
proof (intro conjI allI impI)
  fix resp env
  assume "send_snow_api_request h (complete_request msgs) = resp" "content resp = Inr env"
    "status resp < 400"
  then show "fst (create_relevant_graph_tables h msgs s) = Inr (env, None)"
    by (simp add: create_relevant_graph_tables_def Let_def)
next
  fix resp env rid code msg
  assume "send_snow_api_request h (complete_request msgs) = resp" "content resp = Inr env"
    "400 \<le> status resp" "subscript env ''request_id'' = Inr rid"
    "subscript env ''error_code'' = Inr code" "subscript env ''message'' = Inr msg"
  then show "\<exists>e. fst (create_relevant_graph_tables h msgs s) = Inr (env, Some e)
                 \<and> sublist (str_int (status resp)) e
                 \<and> sublist (py_str (str_other h) rid) e
                 \<and> sublist (py_str (str_other h) code) e
                 \<and> sublist (py_str (str_other h) msg) e"
    by (simp add: create_relevant_graph_tables_def Let_def sublist_Cons_right sublist_skip)
next
  fix model_path resp env
  assume "selected_semantic_model_path s = Some model_path"
    "send_snow_api_request h (message_request msgs model_path) = resp" "content resp = Inr env"
    "status resp < 400"
  then show "fst (get_analyst_response h msgs s) = Inr (env, None)"
    by (simp add: get_analyst_response_def Let_def)
next
  fix model_path resp env rid code msg
  assume "selected_semantic_model_path s = Some model_path"
    "send_snow_api_request h (message_request msgs model_path) = resp" "content resp = Inr env"
    "400 \<le> status resp" "subscript env ''request_id'' = Inr rid"
    "subscript env ''error_code'' = Inr code" "subscript env ''message'' = Inr msg"
  then show "\<exists>e. fst (get_analyst_response h msgs s) = Inr (env, Some e)
                 \<and> sublist (str_int (status resp)) e
                 \<and> sublist (py_str (str_other h) rid) e
                 \<and> sublist (py_str (str_other h) code) e
                 \<and> sublist (py_str (str_other h) msg) e"
    by (simp add: get_analyst_response_def Let_def sublist_Cons_right sublist_skip)
qed

text \<open>
  A host whose completion endpoint answers 500 while its message endpoint answers 302, and
  the host with the two answers exchanged, each with the body of the specification's
  example.
\<close>

theorem remote_call_result_witness:
  "(\<exists>e. fst (create_relevant_graph_tables
               (routing (answer 500 bad_envelope) (answer 302 bad_envelope)) []
               (fresh\<lparr>selected_semantic_model_path := Some ''m.yaml''\<rparr>)) = Inr (bad_envelope, Some e)
        \<and> sublist ''500'' e \<and> sublist ''r1'' e \<and> sublist ''E1'' e \<and> sublist ''bad'' e)
   \<and> fst (get_analyst_response
               (routing (answer 500 bad_envelope) (answer 302 bad_envelope)) []
               (fresh\<lparr>selected_semantic_model_path := Some ''m.yaml''\<rparr>)) = Inr (bad_envelope, None)
   \<and> fst (create_relevant_graph_tables
               (routing (answer 302 bad_envelope) (answer 500 bad_envelope)) []
               (fresh\<lparr>selected_semantic_model_path := Some ''m.yaml''\<rparr>)) = Inr (bad_envelope, None)
   \<and> (\<exists>e. fst (get_analyst_response
               (routing (answer 302 bad_envelope) (answer 500 bad_envelope)) []
               (fresh\<lparr>selected_semantic_model_path := Some ''m.yaml''\<rparr>)) = Inr (bad_envelope, Some e)
        \<and> sublist ''500'' e \<and> sublist ''r1'' e \<and> sublist ''E1'' e \<and> sublist ''bad'' e)"
  using remote_call_result
          [of "routing (answer 500 bad_envelope) (answer 302 bad_envelope)" "[]"
              "fresh\<lparr>selected_semantic_model_path := Some ''m.yaml''\<rparr>"]
        remote_call_result
          [of "routing (answer 302 bad_envelope) (answer 500 bad_envelope)" "[]"
              "fresh\<lparr>selected_semantic_model_path := Some ''m.yaml''\<rparr>"]
  by (simp add: routing_def replying_def answer_def bad_envelope_def fresh_def str_int_500
      complete_request_def message_request_def post_def API_COMPLETE_ENDPOINT_def API_ENDPOINT_def)

section \<open>Properties of the turn orchestrator\<close>

lemma subscript_Inr_obj: "subscript env k = Inr v \<Longrightarrow> \<exists>kvs. env = JObj kvs"
  by (cases env) auto

lemma py_in_obj: "py_in k (JObj kvs) = Inr (\<not> isl (subscript (JObj kvs) k))"
  by (cases "map_of kvs k") (simp_all add: dom_map_of_conv_image_fst[symmetric] domIff)

lemma display_user_content:
  "display_message h (user_content prompt) i JNull s = (Done, emit ''markdown'' prompt s)"
  by (simp add: display_message_def user_content_def display_item_def)

lemma extend_warnings_obj:
  assumes "warnings s = Some ws" and "warnings_iterable (JObj kvs)"
  shows "extend_warnings (JObj kvs) s = (Done, s\<lparr>warnings := Some (ws @ envelope_warnings (JObj kvs))\<rparr>)"
  using assms
  by (cases "map_of kvs ''warnings''")
     (auto simp: extend_warnings_def warnings_iterable_def envelope_warnings_def
        dom_map_of_conv_image_fst[symmetric] domIff split: sum.splits)

lemma crgt_snd:
  "snd (create_relevant_graph_tables h msgs s) = s\<lparr>api_log := api_log s @ [complete_request msgs]\<rparr>"
  by (simp add: create_relevant_graph_tables_def Let_def)

lemma crgt_fst: "fst (create_relevant_graph_tables h msgs s) = fst (create_relevant_graph_tables h msgs s0)"
  by (simp add: create_relevant_graph_tables_def Let_def)


lemma not_isl_iff: "(\<not> isl x) = (\<exists>v. x = Inr v)"
  by (cases x) auto

lemma well_formed_obj:
  assumes "well_formed resp" and "content resp = Inr env"
  shows "\<exists>kvs. env = JObj kvs"
  using assms
  by (cases env)
     (auto simp: well_formed_def success_envelope_def failure_envelope_def split: if_splits)

lemma process_user_input_well_formed:
  assumes ms: "messages s = Some ms"
    and send: "send_snow_api_request h (complete_request (ms @ [user_message prompt])) = resp"
    and env: "content resp = Inr env"
    and wf: "well_formed resp"
  shows "\<exists>a err s'.
           fst (create_relevant_graph_tables h (ms @ [user_message prompt]) s) = Inr (env, err)
         \<and> (err = None \<longleftrightarrow> status resp < 400)
         \<and> analyst_message env err = Inr a
         \<and> process_user_input h prompt s = (Rerun, s')
         \<and> s'\<lparr>screen := screen s\<rparr> =
              s\<lparr>warnings := Some (envelope_warnings env),
                messages := Some (ms @ [user_message prompt, a]),
                fire_API_error_notify :=
                  (if err = None then fire_API_error_notify s else Some True),
                api_log := api_log s @ [complete_request (ms @ [user_message prompt])]\<rparr>"
proof -
  obtain kvs where kvs: "env = JObj kvs"
    using well_formed_obj [OF wf env] by blast
  have wi: "warnings_iterable (JObj kvs)"
    using wf env kvs by (simp add: well_formed_def)
  show ?thesis
  proof (cases "status resp < 400")
    case True
    then have "success_envelope (JObj kvs)"
      using wf env kvs by (simp add: well_formed_def)
    then obtain m c rid where f: "map_of kvs ''message'' = Some m" "subscript m ''content'' = Inr c"
      "map_of kvs ''request_id'' = Some rid"
      by (auto simp: success_envelope_def not_isl_iff split: option.splits sum.splits)
    show ?thesis
      using True ms send env kvs f wi
      by (simp add: process_user_input_def Let_def display_user_content emit_def
          create_relevant_graph_tables_def analyst_message_def extend_warnings_obj)
  next
    case False
    then have "failure_envelope (JObj kvs)"
      using wf env kvs by (simp add: well_formed_def)
    then obtain rid code msg where f: "map_of kvs ''request_id'' = Some rid"
      "map_of kvs ''error_code'' = Some code" "map_of kvs ''message'' = Some msg"
      by (auto simp: failure_envelope_def not_isl_iff split: option.splits)
    show ?thesis
      using False ms send env kvs f wi
      by (simp add: process_user_input_def Let_def display_user_content emit_def
          create_relevant_graph_tables_def analyst_message_def extend_warnings_obj)
  qed
qed

lemma extend_warnings_messages: "messages (snd (extend_warnings env s)) = messages s"
  by (simp add: extend_warnings_def split: sum.splits option.splits)

text \<open>
  Claim C1. A cycle whose remote call brought a well-formed response ends with the analyst
  turn appended after the turn of the user. When the call returned no error, the content
  of the turn is \<^verbatim>\<open>message.content\<close> of the envelope and the cycle leaves the
  error-notification flag as it was; when the call returned an error string, the content
  is the one text block holding that string and the flag is set. In both cases the
  \<^verbatim>\<open>request_id\<close> of the turn is that of the envelope.
\<close>

theorem process_user_input_analyst_turn:
  assumes "messages s = Some ms"
    and "send_snow_api_request h (complete_request (ms @ [user_message prompt])) = resp"
    and "content resp = Inr env"
    and "well_formed resp"
  shows "\<exists>s' c rid err.
           process_user_input h prompt s = (Rerun, s')
         \<and> fst (create_relevant_graph_tables h (ms @ [user_message prompt]) s) = Inr (env, err)
         \<and> messages s' =
             Some (ms @ [user_message prompt,
                         JObj [(''role'', JStr ''analyst''), (''content'', c), (''request_id'', rid)]])
         \<and> subscript env ''request_id'' = Inr rid
         \<and> (case err of
               None \<Rightarrow>
                 (\<exists>m. subscript env ''message'' = Inr m \<and> subscript m ''content'' = Inr c)
                 \<and> fire_API_error_notify s' = fire_API_error_notify s
             | Some e \<Rightarrow>
                 c = JArr [JObj [(''type'', JStr ''text''), (''text'', JStr e)]]
                 \<and> fire_API_error_notify s' = Some True)"
proof -
  obtain a err s' where
    call: "fst (create_relevant_graph_tables h (ms @ [user_message prompt]) s) = Inr (env, err)"
    and turn: "analyst_message env err = Inr a"
    and run: "process_user_input h prompt s = (Rerun, s')"
    and st: "s'\<lparr>screen := screen s\<rparr> =
              s\<lparr>warnings := Some (envelope_warnings env),
                messages := Some (ms @ [user_message prompt, a]),
                fire_API_error_notify :=
                  (if err = None then fire_API_error_notify s else Some True),
                api_log := api_log s @ [complete_request (ms @ [user_message prompt])]\<rparr>"
    using process_user_input_well_formed [OF assms] by blast
  have msgs: "messages s' = Some (ms @ [user_message prompt, a])"
    using arg_cong [OF st, of messages] by simp
  have fire: "fire_API_error_notify s' = (if err = None then fire_API_error_notify s else Some True)"
    using arg_cong [OF st, of fire_API_error_notify] by simp
  show ?thesis
  proof (cases err)
    case None
    then obtain m c rid where "subscript env ''message'' = Inr m" "subscript m ''content'' = Inr c"
      "subscript env ''request_id'' = Inr rid"
      "a = JObj [(''role'', JStr ''analyst''), (''content'', c), (''request_id'', rid)]"
      using turn by (auto simp: analyst_message_def split: sum.splits)
    then show ?thesis
      using None call run msgs fire by auto
  next
    case (Some e)
    then obtain rid where "subscript env ''request_id'' = Inr rid"
      "a = JObj [(''role'', JStr ''analyst''),
                 (''content'', JArr [JObj [(''type'', JStr ''text''), (''text'', JStr e)]]),
                 (''request_id'', rid)]"
      using turn by (auto simp: analyst_message_def split: sum.splits)
    then show ?thesis
      using Some call run msgs fire by auto
  qed
qed

lemmas sample_defs = replying_def answer_def hi_envelope_def bad_envelope_def warning_envelope_def
  fresh_def reset_session_state_def well_formed_def success_envelope_def failure_envelope_def
  warnings_iterable_def

text \<open>
  The response 200 with the content \<^verbatim>\<open>[{"type":"text","text":"hi"}]\<close> and the request id
  \<^verbatim>\<open>r2\<close> in a session just reset, where the flag is not set; and the response 500.
\<close>

theorem process_user_input_analyst_turn_witness:
  "(\<exists>s'. process_user_input (replying (answer 200 hi_envelope)) (JStr ''q'')
             (reset_session_state fresh) = (Rerun, s')
        \<and> messages s' =
            Some [user_message (JStr ''q''),
                  JObj [(''role'', JStr ''analyst''),
                        (''content'', JArr [JObj [(''type'', JStr ''text''), (''text'', JStr ''hi'')]]),
                        (''request_id'', JStr ''r2'')]]
        \<and> fire_API_error_notify s' = None)
   \<and> (\<exists>s' e. process_user_input (replying (answer 500 bad_envelope)) (JStr ''q'')
             (reset_session_state fresh) = (Rerun, s')
        \<and> fst (create_relevant_graph_tables (replying (answer 500 bad_envelope))
                 [user_message (JStr ''q'')] (reset_session_state fresh)) = Inr (bad_envelope, Some e)
        \<and> messages s' =
            Some [user_message (JStr ''q''),
                  JObj [(''role'', JStr ''analyst''),
                        (''content'', JArr [JObj [(''type'', JStr ''text''), (''text'', JStr e)]]),
                        (''request_id'', JStr ''r1'')]]
        \<and> fire_API_error_notify s' = Some True)"
proof (intro conjI)
  show "\<exists>s'. process_user_input (replying (answer 200 hi_envelope)) (JStr ''q'')
             (reset_session_state fresh) = (Rerun, s')
        \<and> messages s' =
            Some [user_message (JStr ''q''),
                  JObj [(''role'', JStr ''analyst''),
                        (''content'', JArr [JObj [(''type'', JStr ''text''), (''text'', JStr ''hi'')]]),
                        (''request_id'', JStr ''r2'')]]
        \<and> fire_API_error_notify s' = None"
    using process_user_input_analyst_turn
            [of "reset_session_state fresh" "[]" "replying (answer 200 hi_envelope)" "JStr ''q''"
                "answer 200 hi_envelope" hi_envelope]
    by (auto simp: sample_defs create_relevant_graph_tables_def Let_def)
next
  show "\<exists>s' e. process_user_input (replying (answer 500 bad_envelope)) (JStr ''q'')
             (reset_session_state fresh) = (Rerun, s')
        \<and> fst (create_relevant_graph_tables (replying (answer 500 bad_envelope))
                 [user_message (JStr ''q'')] (reset_session_state fresh)) = Inr (bad_envelope, Some e)
        \<and> messages s' =
            Some [user_message (JStr ''q''),
                  JObj [(''role'', JStr ''analyst''),
                        (''content'', JArr [JObj [(''type'', JStr ''text''), (''text'', JStr e)]]),
                        (''request_id'', JStr ''r1'')]]
        \<and> fire_API_error_notify s' = Some True"
    using process_user_input_analyst_turn
            [of "reset_session_state fresh" "[]" "replying (answer 500 bad_envelope)" "JStr ''q''"
                "answer 500 bad_envelope" bad_envelope]
    by (auto simp: sample_defs create_relevant_graph_tables_def Let_def)
qed

lemma py_iter_error: "py_iter w = Inl e \<Longrightarrow> e = TypeError"
  by (cases w) auto




lemma failed_call_turn:
  assumes "send_snow_api_request h (complete_request msgs) = resp"
    and "content resp = Inr env" and "400 \<le> status resp" and "failure_envelope env"
  shows "\<exists>rid e. subscript env ''request_id'' = Inr rid
           \<and> (\<forall>s. create_relevant_graph_tables h msgs s
               = (Inr (env, Some e), s\<lparr>api_log := api_log s @ [complete_request msgs]\<rparr>))
           \<and> analyst_message env (Some e) =
               Inr (JObj [(''role'', JStr ''analyst''),
                          (''content'', JArr [JObj [(''type'', JStr ''text''), (''text'', JStr e)]]),
                          (''request_id'', rid)])"
  using assms
  by (auto simp: failure_envelope_def not_isl_iff create_relevant_graph_tables_def Let_def
      analyst_message_def)

lemma extend_warnings_not_iterable:
  assumes "\<not> warnings_iterable (JObj kvs)" and "warnings s = Some ws"
  shows "extend_warnings (JObj kvs) s = (Raised TypeError, s)"
proof -
  obtain w e where w: "map_of kvs ''warnings'' = Some w" "py_iter w = Inl e"
    using assms(1)
    by (auto simp: warnings_iterable_def isl_def split: sum.splits option.splits)
  then have "e = TypeError" using py_iter_error by blast
  then show ?thesis
    using w assms(2)
    by (simp add: extend_warnings_def py_in_obj del: py_in.simps)
qed

text \<open>
  Claim C5 fails. A response 500 whose envelope has \<^verbatim>\<open>error_code\<close> and \<^verbatim>\<open>message\<close> but no
  \<^verbatim>\<open>request_id\<close>: the cycle raises \<^verbatim>\<open>KeyError\<close>, and the transcript ends with the turn
  of the user; no analyst turn is appended.
\<close>

theorem missing_request_id_counterexample:
  "fst (process_user_input
          (replying (answer 500 (JObj [(''error_code'', JStr ''E1''), (''message'', JStr ''bad'')])))
          (JStr ''q'') (reset_session_state fresh)) = Raised (KeyError ''request_id'')
   \<and> messages (snd (process_user_input
          (replying (answer 500 (JObj [(''error_code'', JStr ''E1''), (''message'', JStr ''bad'')])))
          (JStr ''q'') (reset_session_state fresh))) = Some [user_message (JStr ''q'')]"
  by (simp add: sample_defs process_user_input_def display_user_content emit_def Let_def
      create_relevant_graph_tables_def)

text \<open>
  Claim C5, amended. For a failed remote call (status 400 or more) whose envelope holds
  \<^verbatim>\<open>request_id\<close>, \<^verbatim>\<open>error_code\<close> and \<^verbatim>\<open>message\<close>, the analyst turn is built: its content
  is the one text block with the error string and its \<^verbatim>\<open>request_id\<close> is that of the
  envelope. The turn is appended when the \<^verbatim>\<open>warnings\<close> entry of the envelope, if there is
  one, can be iterated; otherwise the merge of the warnings raises \<^verbatim>\<open>TypeError\<close> and the
  transcript ends with the turn of the user. An envelope that is a dict with no
  \<^verbatim>\<open>request_id\<close> makes the cycle raise \<^verbatim>\<open>KeyError\<close> after the turn of the user has been
  appended.
\<close>

theorem failed_call_request_id:
  assumes "messages s = Some ms"
    and "send_snow_api_request h (complete_request (ms @ [user_message prompt])) = resp"
    and "content resp = Inr env"
    and "400 \<le> status resp"
  shows "(failure_envelope env \<longrightarrow>
            (\<exists>rid e turn.
                subscript env ''request_id'' = Inr rid
              \<and> fst (create_relevant_graph_tables h (ms @ [user_message prompt]) s)
                  = Inr (env, Some e)
              \<and> turn = JObj [(''role'', JStr ''analyst''),
                             (''content'', JArr [JObj [(''type'', JStr ''text''), (''text'', JStr e)]]),
                             (''request_id'', rid)]
              \<and> analyst_message env (Some e) = Inr turn
              \<and> (warnings_iterable env \<longrightarrow>
                    (\<exists>s'. process_user_input h prompt s = (Rerun, s')
                        \<and> messages s' = Some (ms @ [user_message prompt, turn])))
              \<and> (\<not> warnings_iterable env \<longrightarrow>
                    fst (process_user_input h prompt s) = Raised TypeError
                  \<and> messages (snd (process_user_input h prompt s))
                      = Some (ms @ [user_message prompt]))))
       \<and> (\<forall>kvs. env = JObj kvs \<longrightarrow> map_of kvs ''request_id'' = None \<longrightarrow>
             fst (process_user_input h prompt s) = Raised (KeyError ''request_id'')
           \<and> messages (snd (process_user_input h prompt s)) = Some (ms @ [user_message prompt]))"
proof (intro conjI allI impI)
  assume fe: "failure_envelope env"
  from failed_call_turn [OF assms(2,3,4) fe]
  obtain rid e where rid: "subscript env ''request_id'' = Inr rid"
    and call: "\<And>s. create_relevant_graph_tables h (ms @ [user_message prompt]) s
               = (Inr (env, Some e),
                  s\<lparr>api_log := api_log s @ [complete_request (ms @ [user_message prompt])]\<rparr>)"
    and turn: "analyst_message env (Some e) =
               Inr (JObj [(''role'', JStr ''analyst''),
                          (''content'', JArr [JObj [(''type'', JStr ''text''), (''text'', JStr e)]]),
                          (''request_id'', rid)])"
    by blast
  obtain kvs where kvs: "env = JObj kvs"
    using rid subscript_Inr_obj by blast
  have ok: "warnings_iterable env \<Longrightarrow>
              (\<exists>s'. process_user_input h prompt s = (Rerun, s')
                  \<and> messages s' = Some (ms @ [user_message prompt,
                        JObj [(''role'', JStr ''analyst''),
                          (''content'', JArr [JObj [(''type'', JStr ''text''), (''text'', JStr e)]]),
                          (''request_id'', rid)]]))"
    using assms(1) call turn kvs
    by (simp add: process_user_input_def Let_def display_user_content emit_def
        extend_warnings_obj)
  have bad: "\<not> warnings_iterable env \<Longrightarrow>
               fst (process_user_input h prompt s) = Raised TypeError
             \<and> messages (snd (process_user_input h prompt s)) = Some (ms @ [user_message prompt])"
    using assms(1) call turn kvs
    by (simp add: process_user_input_def Let_def display_user_content emit_def
        extend_warnings_not_iterable)
  show "\<exists>rid e turn.
                subscript env ''request_id'' = Inr rid
              \<and> fst (create_relevant_graph_tables h (ms @ [user_message prompt]) s)
                  = Inr (env, Some e)
              \<and> turn = JObj [(''role'', JStr ''analyst''),
                             (''content'', JArr [JObj [(''type'', JStr ''text''), (''text'', JStr e)]]),
                             (''request_id'', rid)]
              \<and> analyst_message env (Some e) = Inr turn
              \<and> (warnings_iterable env \<longrightarrow>
                    (\<exists>s'. process_user_input h prompt s = (Rerun, s')
                        \<and> messages s' = Some (ms @ [user_message prompt, turn])))
              \<and> (\<not> warnings_iterable env \<longrightarrow>
                    fst (process_user_input h prompt s) = Raised TypeError
                  \<and> messages (snd (process_user_input h prompt s))
                      = Some (ms @ [user_message prompt]))"
    using rid call turn ok bad by auto
next
  fix kvs assume "env = JObj kvs" "map_of kvs ''request_id'' = None"
  then show "fst (process_user_input h prompt s) = Raised (KeyError ''request_id'')"
    using assms
    by (simp add: process_user_input_def display_user_content emit_def Let_def
        create_relevant_graph_tables_def)
next
  fix kvs assume "env = JObj kvs" "map_of kvs ''request_id'' = None"
  then show "messages (snd (process_user_input h prompt s)) = Some (ms @ [user_message prompt])"
    using assms
    by (simp add: process_user_input_def display_user_content emit_def Let_def
        create_relevant_graph_tables_def)
qed

text \<open>
  The error envelope of the specification's example, the same envelope with
  \<^verbatim>\<open>"warnings": null\<close>, and an envelope with a message only.
\<close>

theorem failed_call_request_id_witness:
  "(\<exists>s' e. process_user_input (replying (answer 500 bad_envelope)) (JStr ''q'')
             (reset_session_state fresh) = (Rerun, s')
        \<and> messages s' =
            Some [user_message (JStr ''q''),
                  JObj [(''role'', JStr ''analyst''),
                        (''content'', JArr [JObj [(''type'', JStr ''text''), (''text'', JStr e)]]),
                        (''request_id'', JStr ''r1'')]])
   \<and> fst (process_user_input
            (replying (answer 500 (JObj [(''request_id'', JStr ''r1''), (''error_code'', JStr ''E1''),
               (''message'', JStr ''bad''), (''warnings'', JNull)])))
            (JStr ''q'') (reset_session_state fresh)) = Raised TypeError
   \<and> fst (process_user_input (replying (answer 500 (JObj [(''message'', JStr ''bad'')])))
            (JStr ''q'') (reset_session_state fresh)) = Raised (KeyError ''request_id'')"
  using failed_call_request_id
          [of "reset_session_state fresh" "[]" "replying (answer 500 bad_envelope)" "JStr ''q''"
              "answer 500 bad_envelope" bad_envelope]
        failed_call_request_id
          [of "reset_session_state fresh" "[]"
              "replying (answer 500 (JObj [(''request_id'', JStr ''r1''), (''error_code'', JStr ''E1''),
                 (''message'', JStr ''bad''), (''warnings'', JNull)]))" "JStr ''q''"
              "answer 500 (JObj [(''request_id'', JStr ''r1''), (''error_code'', JStr ''E1''),
                 (''message'', JStr ''bad''), (''warnings'', JNull)])"
              "JObj [(''request_id'', JStr ''r1''), (''error_code'', JStr ''E1''),
                 (''message'', JStr ''bad''), (''warnings'', JNull)]"]
        failed_call_request_id
          [of "reset_session_state fresh" "[]"
              "replying (answer 500 (JObj [(''message'', JStr ''bad'')]))" "JStr ''q''"
              "answer 500 (JObj [(''message'', JStr ''bad'')])" "JObj [(''message'', JStr ''bad'')]"]
  by (auto simp: sample_defs)

section \<open>Properties of the feedback submitter\<close>

text \<open>
  Claim C7. The feedback records are a map, so a request id has at most one record. Once
  a record exists for the request id, the section shows the banner only, the success
  banner or the error banner with the recorded error, and neither the form nor the submit
  button; whatever the user does, the state is left as it was but for the screen, so the
  record is unchanged and no request is sent. No run of the section removes or changes an
  existing record. While there is no record, a submission sends exactly one request, and
  when the section then ends in a rerun the record for the request id has been written.
\<close>

theorem feedback_one_way:
  assumes "form_submitted s = Some fs" and "dict_key request_id = Inr k"
  shows "(\<forall>r err. fs k = Some r \<longrightarrow> subscript r ''error'' = Inr err \<longrightarrow>
            display_feedback_section h request_id s =
              (Done, s\<lparr>screen := screen s @
                 [(''popover'', JStr ''Query Feedback''),
                  (if err = JNull then (''success'', JStr ''Feedback submitted'')
                   else (''error'', err))]\<rparr>))
       \<and> (\<exists>fs'. form_submitted (snd (display_feedback_section h request_id s)) = Some fs'
              \<and> (\<forall>k'. fs k' \<noteq> None \<longrightarrow> fs' k' = fs k'))
       \<and> (fs k = None \<longrightarrow> feedback_submit h request_id \<longrightarrow>
             api_log (snd (display_feedback_section h request_id s)) =
               api_log s @ [feedback_request request_id (feedback_radio_first h request_id)
                              (feedback_text h request_id)]
           \<and> (fst (display_feedback_section h request_id s) = Rerun \<longrightarrow>
                (\<exists>err. form_submitted (snd (display_feedback_section h request_id s)) =
                         Some (fs(k \<mapsto> JObj [(''error'', err)])))))"
proof (intro conjI allI impI)
  fix r err assume "fs k = Some r" "subscript r ''error'' = Inr err"
  then show "display_feedback_section h request_id s =
              (Done, s\<lparr>screen := screen s @
                 [(''popover'', JStr ''Query Feedback''),
                  (if err = JNull then (''success'', JStr ''Feedback submitted'')
                   else (''error'', err))]\<rparr>)"
    using assms by (simp add: display_feedback_section_def Let_def emit_def)
next
  show "\<exists>fs'. form_submitted (snd (display_feedback_section h request_id s)) = Some fs'
              \<and> (\<forall>k'. fs k' \<noteq> None \<longrightarrow> fs' k' = fs k')"
    using assms
    by (auto simp: display_feedback_section_def Let_def emit_def submit_feedback_def
        split: option.splits sum.splits prod.splits)
next
  assume "fs k = None" "feedback_submit h request_id"
  then show "api_log (snd (display_feedback_section h request_id s)) =
               api_log s @ [feedback_request request_id (feedback_radio_first h request_id)
                              (feedback_text h request_id)]"
    using assms
    by (auto simp: display_feedback_section_def Let_def emit_def submit_feedback_def
        split: option.splits sum.splits prod.splits)
next
  assume "fs k = None" "feedback_submit h request_id"
    "fst (display_feedback_section h request_id s) = Rerun"
  then show "\<exists>err. form_submitted (snd (display_feedback_section h request_id s)) =
                         Some (fs(k \<mapsto> JObj [(''error'', err)]))"
    using assms
    by (auto simp: display_feedback_section_def Let_def emit_def submit_feedback_def
        split: option.splits sum.splits prod.splits)
qed


text \<open>The first submission for the request id \<^verbatim>\<open>r2\<close> in a session just reset.\<close>

lemma first_submission:
  "fst (display_feedback_section submitting (JStr ''r2'') (reset_session_state fresh)) = Rerun"
  "form_submitted (snd (display_feedback_section submitting (JStr ''r2'') (reset_session_state fresh)))
     = Some [JStr ''r2'' \<mapsto> JObj [(''error'', JNull)]]"
  "api_log (snd (display_feedback_section submitting (JStr ''r2'') (reset_session_state fresh)))
     = [feedback_request (JStr ''r2'') True []]"
  by (simp_all add: display_feedback_section_def submit_feedback_def submitting_def sample_defs
      emit_def Let_def)

text \<open>
  The user submits feedback for \<^verbatim>\<open>r2\<close> and presses the button again in the next run:
  one request in the log, the record unchanged, the success banner on the screen.
\<close>

theorem feedback_one_way_witness:
  "fst (display_feedback_section submitting (JStr ''r2'') (reset_session_state fresh)) = Rerun
   \<and> form_submitted (snd (display_feedback_section submitting (JStr ''r2'') (reset_session_state fresh)))
       = Some [JStr ''r2'' \<mapsto> JObj [(''error'', JNull)]]
   \<and> api_log (snd (display_feedback_section submitting (JStr ''r2'') (reset_session_state fresh)))
       = [feedback_request (JStr ''r2'') True []]
   \<and> display_feedback_section submitting (JStr ''r2'')
        (snd (display_feedback_section submitting (JStr ''r2'') (reset_session_state fresh)))
       = (Done,
          (snd (display_feedback_section submitting (JStr ''r2'') (reset_session_state fresh)))
            \<lparr>screen :=
               screen (snd (display_feedback_section submitting (JStr ''r2'') (reset_session_state fresh)))
               @ [(''popover'', JStr ''Query Feedback''), (''success'', JStr ''Feedback submitted'')]\<rparr>)"
proof -
  have k: "dict_key (JStr ''r2'') = Inr (JStr ''r2'')"
    by simp
  have again: "display_feedback_section submitting (JStr ''r2'')
        (snd (display_feedback_section submitting (JStr ''r2'') (reset_session_state fresh)))
       = (Done,
          (snd (display_feedback_section submitting (JStr ''r2'') (reset_session_state fresh)))
            \<lparr>screen :=
               screen (snd (display_feedback_section submitting (JStr ''r2'') (reset_session_state fresh)))
               @ [(''popover'', JStr ''Query Feedback''), (''success'', JStr ''Feedback submitted'')]\<rparr>)"
    using feedback_one_way [OF first_submission(2) k, of submitting]
    by simp
  have once: "api_log (snd (display_feedback_section submitting (JStr ''r2'')
                  (reset_session_state fresh))) = [feedback_request (JStr ''r2'') True []]"
    using feedback_one_way
            [of "reset_session_state fresh" Map.empty "JStr ''r2''" "JStr ''r2''" submitting]
    by (simp add: submitting_def sample_defs)
  show ?thesis
    using first_submission(1,2) once again by simp
qed

section \<open>Properties of the content renderer\<close>

text \<open>
  Claim C6 fails for a missing key. Rendering a \<^verbatim>\<open>sql\<close> block that has no
  \<^verbatim>\<open>confidence\<close> entry raises \<^verbatim>\<open>KeyError\<close>, and so does rendering one whose
  \<^verbatim>\<open>confidence\<close> is a dict with no \<^verbatim>\<open>verified_query_used\<close> entry.
\<close>

theorem missing_confidence_counterexample:
  "fst (display_message (replying (answer 200 hi_envelope)) (JArr [sql_block []]) 0 JNull
          (reset_session_state fresh)) = Raised (KeyError ''confidence'')
   \<and> fst (display_message (replying (answer 200 hi_envelope))
          (JArr [sql_block [(''confidence'', JObj [])]]) 0 JNull
          (reset_session_state fresh)) = Raised (KeyError ''verified_query_used'')"
  by (simp add: display_message_def display_item_def sql_block_def display_sql_query_def
      display_sql_confidence_def Let_def)

text \<open>
  Claim C6, amended. The renderer takes the value \<^verbatim>\<open>None\<close> (JSON \<^verbatim>\<open>null\<close>) for the
  feature being absent. A \<^verbatim>\<open>confidence\<close> that is \<^verbatim>\<open>None\<close> shows nothing and does not
  raise; a \<^verbatim>\<open>confidence\<close> whose \<^verbatim>\<open>verified_query_used\<close> is \<^verbatim>\<open>None\<close> does not raise
  either. A \<^verbatim>\<open>sql\<close> block with such a confidence, in a turn without request id, fails to
  render only when the warehouse call or the chart tab raises. An envelope (a dict) without
  a \<^verbatim>\<open>warnings\<close> entry is merged without an error and leaves the state as it was. A
  missing key is not taken for an absent feature: a \<^verbatim>\<open>sql\<close> block with no
  \<^verbatim>\<open>confidence\<close> key, and a confidence that is not \<^verbatim>\<open>None\<close> and cannot give
  \<^verbatim>\<open>verified_query_used\<close>, raise the error of the subscript.
\<close>

theorem null_fields_render:
  "display_sql_confidence h JNull s = (Done, s)
   \<and> (subscript confidence ''verified_query_used'' = Inr JNull \<longrightarrow>
        fst (display_sql_confidence h confidence s) = Done)
   \<and> (subscript item ''type'' = Inr (JStr ''sql'') \<longrightarrow>
      subscript item ''statement'' = Inr statement \<longrightarrow>
      subscript item ''confidence'' = Inr confidence \<longrightarrow>
      confidence = JNull \<or> subscript confidence ''verified_query_used'' = Inr JNull \<longrightarrow>
        fst (display_item h message_index JNull item s) =
          (case sql_to_pandas h statement of
             SqlData df \<Rightarrow>
               if df_empty df then Done
               else (case charts_tab h df message_index of Inl e \<Rightarrow> Raised e | Inr ws \<Rightarrow> Done)
           | SnowparkSQLException e \<Rightarrow> Done
           | SqlRaises e \<Rightarrow> Raised e))
   \<and> (subscript env k = Inr v \<longrightarrow> isl (subscript env ''warnings'') \<longrightarrow>
        extend_warnings env s = (Done, s))
   \<and> (subscript item ''type'' = Inr (JStr ''sql'') \<longrightarrow>
      subscript item ''statement'' = Inr statement \<longrightarrow>
      subscript item ''confidence'' = Inl err \<longrightarrow>
        display_item h message_index request_id item s = (Raised err, s))
   \<and> (confidence \<noteq> JNull \<longrightarrow> subscript confidence ''verified_query_used'' = Inl err \<longrightarrow>
        display_sql_confidence h confidence s = (Raised err, s))"
proof (intro conjI impI)
  show "display_sql_confidence h JNull s = (Done, s)"
    by (simp add: display_sql_confidence_def)
next
  assume "subscript confidence ''verified_query_used'' = Inr JNull"
  then show "fst (display_sql_confidence h confidence s) = Done"
    by (simp add: display_sql_confidence_def Let_def)
next
  assume a: "subscript item ''type'' = Inr (JStr ''sql'')"
    "subscript item ''statement'' = Inr statement"
    "subscript item ''confidence'' = Inr confidence"
    "confidence = JNull \<or> subscript confidence ''verified_query_used'' = Inr JNull"
  have c: "\<exists>s'. display_sql_confidence h confidence
              (emit ''code'' statement (emit ''expander'' (JStr ''SQL Query'') s)) = (Done, s')"
    using a(4) by (auto simp: display_sql_confidence_def Let_def)
  then obtain s' where s': "display_sql_confidence h confidence
              (emit ''code'' statement (emit ''expander'' (JStr ''SQL Query'') s)) = (Done, s')"
    by blast
  show "fst (display_item h message_index JNull item s) =
          (case sql_to_pandas h statement of
             SqlData df \<Rightarrow>
               if df_empty df then Done
               else (case charts_tab h df message_index of Inl e \<Rightarrow> Raised e | Inr ws \<Rightarrow> Done)
           | SnowparkSQLException e \<Rightarrow> Done
           | SqlRaises e \<Rightarrow> Raised e)"
    using a(1-3) s'
    by (simp add: display_item_def display_sql_query_def get_query_exec_result_def Let_def
        split: sql_outcome.splits sum.splits)
next
  assume "subscript env k = Inr v" "isl (subscript env ''warnings'')"
  then show "extend_warnings env s = (Done, s)"
    by (cases env) (auto simp: extend_warnings_def dom_map_of_conv_image_fst[symmetric] domIff
        split: option.splits)
next
  assume "subscript item ''type'' = Inr (JStr ''sql'')" "subscript item ''statement'' = Inr statement"
    "subscript item ''confidence'' = Inl err"
  then show "display_item h message_index request_id item s = (Raised err, s)"
    by (simp add: display_item_def)
next
  assume "confidence \<noteq> JNull" "subscript confidence ''verified_query_used'' = Inl err"
  then show "display_sql_confidence h confidence s = (Raised err, s)"
    by (simp add: display_sql_confidence_def)
qed

text \<open>
  Blocks with \<^verbatim>\<open>"confidence": null\<close> and with \<^verbatim>\<open>"verified_query_used": null\<close>, an
  envelope without warnings, a block without confidence and an empty confidence.
\<close>

theorem null_fields_render_witness:
  "fst (display_item (replying (answer 200 hi_envelope)) 0 JNull
          (sql_block [(''confidence'', JNull)]) (reset_session_state fresh)) = Done
   \<and> fst (display_item (replying (answer 200 hi_envelope)) 0 JNull
          (sql_block [(''confidence'', JObj [(''verified_query_used'', JNull)])])
          (reset_session_state fresh)) = Done
   \<and> extend_warnings hi_envelope (reset_session_state fresh) = (Done, reset_session_state fresh)
   \<and> display_item (replying (answer 200 hi_envelope)) 0 JNull (sql_block [])
        (reset_session_state fresh) = (Raised (KeyError ''confidence''), reset_session_state fresh)
   \<and> display_sql_confidence (replying (answer 200 hi_envelope)) (JObj [])
        (reset_session_state fresh)
       = (Raised (KeyError ''verified_query_used''), reset_session_state fresh)"
proof -
  have a: "fst (display_item (replying (answer 200 hi_envelope)) 0 JNull
          (sql_block [(''confidence'', JNull)]) (reset_session_state fresh)) = Done"
    using null_fields_render
          [of "replying (answer 200 hi_envelope)" "reset_session_state fresh" JNull
              "sql_block [(''confidence'', JNull)]" "JStr ''SELECT 1''" 0
              hi_envelope "''request_id''" "JStr ''r2''"]
    by (simp add: sql_block_def replying_def)
  have b: "fst (display_item (replying (answer 200 hi_envelope)) 0 JNull
          (sql_block [(''confidence'', JObj [(''verified_query_used'', JNull)])])
          (reset_session_state fresh)) = Done"
    using null_fields_render
          [of "replying (answer 200 hi_envelope)" "reset_session_state fresh"
              "JObj [(''verified_query_used'', JNull)]"
              "sql_block [(''confidence'', JObj [(''verified_query_used'', JNull)])]"
              "JStr ''SELECT 1''" 0 hi_envelope "''request_id''" "JStr ''r2''"]
    by (simp add: sql_block_def replying_def)
  have c: "extend_warnings hi_envelope (reset_session_state fresh) = (Done, reset_session_state fresh)"
    using null_fields_render
          [of "replying (answer 200 hi_envelope)" "reset_session_state fresh" JNull
              "sql_block [(''confidence'', JNull)]" "JStr ''SELECT 1''" 0
              hi_envelope "''request_id''" "JStr ''r2''"]
    by (simp add: hi_envelope_def)
  have d: "display_item (replying (answer 200 hi_envelope)) 0 JNull (sql_block [])
        (reset_session_state fresh) = (Raised (KeyError ''confidence''), reset_session_state fresh)"
    using null_fields_render
          [where h = "replying (answer 200 hi_envelope)" and s = "reset_session_state fresh"
             and item = "sql_block []" and statement = "JStr ''SELECT 1''"
             and err = "KeyError ''confidence''" and message_index = 0 and request_id = JNull]
    by (simp add: sql_block_def)
  have e: "display_sql_confidence (replying (answer 200 hi_envelope)) (JObj [])
        (reset_session_state fresh)
       = (Raised (KeyError ''verified_query_used''), reset_session_state fresh)"
    using null_fields_render
          [where h = "replying (answer 200 hi_envelope)" and s = "reset_session_state fresh"
             and confidence = "JObj []" and err = "KeyError ''verified_query_used''"]
    by simp
  show ?thesis using a b c d e by simp
qed

section \<open>Properties of the script\<close>

text \<open>Rendering leaves the transcript as it is, and a cycle only appends to it.\<close>

lemma emit_messages [simp]: "messages (emit w a s) = messages s"
  by (simp add: emit_def)

lemma submit_feedback_state:
  "snd (submit_feedback h r p m s) = s\<lparr>api_log := api_log s @ [feedback_request r p m]\<rparr>"
  by (simp add: submit_feedback_def Let_def)

lemma feedback_messages: "messages (snd (display_feedback_section h r s)) = messages s"
proof (cases "submit_feedback h r (feedback_radio_first h r) (feedback_text h r)
           (emit ''form_submit_button'' (JBool False)
             (emit ''text_input'' (JStr ''Optional feedback message'')
               (emit ''radio'' (JStr ''Rate the generated SQL'')
                 (emit ''form'' (JStr (''feedback_form_'' @ py_str (str_other h) r))
                   (emit ''popover'' (JStr ''Query Feedback'') s)))))")
  case (Pair x s')
  then have "messages s' = messages s"
    using submit_feedback_state [of h r "feedback_radio_first h r" "feedback_text h r"
           "emit ''form_submit_button'' (JBool False)
             (emit ''text_input'' (JStr ''Optional feedback message'')
               (emit ''radio'' (JStr ''Rate the generated SQL'')
                 (emit ''form'' (JStr (''feedback_form_'' @ py_str (str_other h) r))
                   (emit ''popover'' (JStr ''Query Feedback'') s))))"]
    by simp
  then show ?thesis
    using Pair
    by (simp add: display_feedback_section_def Let_def
        split: option.split sum.split)
qed

lemma confidence_messages: "messages (snd (display_sql_confidence h c s)) = messages s"
  by (simp add: display_sql_confidence_def Let_def split: sum.split)

lemma sql_query_messages: "messages (snd (display_sql_query h q i c r s)) = messages s"
proof (cases "display_sql_confidence h c (emit ''code'' q (emit ''expander'' (JStr ''SQL Query'') s))")
  case (Pair out s2)
  then have m2: "messages s2 = messages s"
    using confidence_messages [of h c "emit ''code'' q (emit ''expander'' (JStr ''SQL Query'') s)"]
    by simp
  show ?thesis
  proof (cases out)
    case Done
    then show ?thesis
      using Pair m2
      by (simp add: display_sql_query_def Let_def get_query_exec_result_def feedback_messages
          split: sql_outcome.split sum.split)
  qed (use Pair m2 in \<open>simp_all add: display_sql_query_def Let_def\<close>)
qed

lemma suggestion_buttons_messages:
  "messages (suggestion_buttons h i j xs s) = messages s"
  by (induction xs arbitrary: j s) (simp_all add: Let_def)

lemma display_item_messages: "messages (snd (display_item h i r item s)) = messages s"
  by (simp add: display_item_def suggestion_buttons_messages sql_query_messages
      split: sum.split)

lemma display_items_messages: "messages (snd (display_items h i r items s)) = messages s"
proof (induction items arbitrary: s)
  case Nil
  show ?case by simp
next
  case (Cons item items)
  show ?case
  proof (cases "display_item h i r item s")
    case (Pair out s1)
    then have "messages s1 = messages s"
      using display_item_messages [of h i r item s] by simp
    then show ?thesis
      using Pair Cons.IH [of s1] by (cases out) simp_all
  qed
qed

lemma display_message_messages: "messages (snd (display_message h c i r s)) = messages s"
  by (simp add: display_message_def display_items_messages split: sum.split)

lemma display_turns_messages: "messages (snd (display_turns h i ms s)) = messages s"
proof (induction ms arbitrary: i s)
  case Nil
  show ?case by simp
next
  case (Cons m ms)
  let ?s1 = "emit ''chat_message''"
  show ?case
  proof (cases "subscript m ''role''")
    case (Inl e)
    then show ?thesis by simp
  next
    case (Inr role)
    note role = this
    show ?thesis
    proof (cases "subscript m ''content''")
      case (Inl e)
      then show ?thesis using role by simp
    next
      case (Inr blocks)
      note blocks = this
      obtain out s2 where body:
        "(let s1 = emit ''chat_message'' role s
          in if role = JStr ''analyst'' then
               (case subscript m ''request_id'' of
                  Inl e \<Rightarrow> (Raised e, s1)
                | Inr request_id \<Rightarrow> display_message h blocks i request_id s1)
             else display_message h blocks i JNull s1) = (out, s2)"
        by (cases "(let s1 = emit ''chat_message'' role s
          in if role = JStr ''analyst'' then
               (case subscript m ''request_id'' of
                  Inl e \<Rightarrow> (Raised e, s1)
                | Inr request_id \<Rightarrow> display_message h blocks i request_id s1)
             else display_message h blocks i JNull s1)") blast
      have "messages s2 = messages s"
        using arg_cong [OF body, of "\<lambda>r. messages (snd r)"]
        by (simp add: Let_def display_message_messages split: if_splits sum.splits)
      then show ?thesis
        using role blocks body Cons.IH [of "Suc i" s2] by (cases out) simp_all
    qed
  qed
qed

lemma display_conversation_messages: "messages (snd (display_conversation h s)) = messages s"
  by (simp add: display_conversation_def display_turns_messages split: option.split)

lemma process_user_input_unset:
  "messages s = None \<Longrightarrow>
   process_user_input h p s = (Raised (AttributeError ''messages''), s\<lparr>warnings := Some []\<rparr>)"
  by (simp add: process_user_input_def)

lemma process_user_input_cases:
  assumes "messages s = Some ms"
  shows "fst (process_user_input h p s) \<noteq> Done
       \<and> (\<exists>tail. messages (snd (process_user_input h p s)) = Some (ms @ user_message p # tail))"
proof -
  let ?s5 = "emit ''spinner'' (JStr ''Waiting for Graph Analyst's response (Query 1/2)...'')
               (emit ''chat_message'' (JStr ''analyst'')
                 (emit ''markdown'' p
                   (emit ''chat_message'' (JStr ''user'')
                     (s\<lparr>warnings := Some [], messages := Some (ms @ [user_message p])\<rparr>))))"
  obtain x s6 where call: "create_relevant_graph_tables h (ms @ [user_message p]) ?s5 = (x, s6)"
    by (cases "create_relevant_graph_tables h (ms @ [user_message p]) ?s5") blast
  have "messages (snd (create_relevant_graph_tables h (ms @ [user_message p]) ?s5))
          = Some (ms @ [user_message p])"
    by (simp add: crgt_snd)
  then have m6: "messages s6 = Some (ms @ [user_message p])"
    using call by simp
  show ?thesis
  proof (cases x)
    case (Inl e)
    then show ?thesis
      using assms call m6
      by (simp add: process_user_input_def Let_def display_user_content)
  next
    case (Inr pair)
    obtain response1 error_msg1 where pair: "pair = (response1, error_msg1)"
      by (cases pair) blast
    show ?thesis
    proof (cases "analyst_message response1 error_msg1")
      case (Inl e)
      then show ?thesis
        using assms call m6 Inr pair
        by (simp add: process_user_input_def Let_def display_user_content)
    next
      case (Inr turn)
      note turn = this
      let ?s7 = "if error_msg1 \<noteq> None then s6\<lparr>fire_API_error_notify := Some True\<rparr> else s6"
      obtain out s8 where merge: "extend_warnings response1 ?s7 = (out, s8)"
        by (cases "extend_warnings response1 ?s7") blast
      have "messages (snd (extend_warnings response1 ?s7)) = Some (ms @ [user_message p])"
        using m6 by (simp add: extend_warnings_messages)
      then have m8: "messages s8 = Some (ms @ [user_message p])"
        using merge by simp
      show ?thesis
        using assms call m6 \<open>x = Inr pair\<close> pair turn merge m8
        by (cases out) (simp_all add: process_user_input_def Let_def display_user_content)
    qed
  qed
qed

lemma reset_messages [simp]: "messages (reset_session_state s) = Some []"
  by (simp add: reset_session_state_def)

lemma show_header_messages:
  "messages (show_header_and_sidebar h s) = (if clear_chat_history h then Some [] else messages s)"
  by (simp add: show_header_and_sidebar_def Let_def split: option.split)

lemma handle_user_inputs_appends:
  assumes "messages s = Some ms"
  shows "\<exists>tail. messages (snd (handle_user_inputs h s)) = Some (ms @ tail)"
proof -
  have a: "\<And>p s'. messages s' = Some ms \<Longrightarrow>
             \<exists>tail. messages (snd (process_user_input h p s')) = Some (ms @ tail)"
    using process_user_input_cases by blast
  have b: "\<exists>tail. Some ms = Some (ms @ tail)"
    by simp
  show ?thesis
    using assms a b
    by (simp add: handle_user_inputs_def Let_def split: option.split)
qed

lemma handle_error_notifications_messages:
  "messages (handle_error_notifications s) = messages s"
  by (simp add: handle_error_notifications_def)

lemma warning_boxes_messages: "messages (snd (warning_boxes ws s)) = messages s"
  by (induction ws arbitrary: s) (simp_all split: sum.split)

lemma display_warnings_messages: "messages (snd (display_warnings s)) = messages s"
  by (simp add: display_warnings_def warning_boxes_messages split: option.split)

lemma main_render_appends:
  assumes "messages s = Some ms"
  shows "\<exists>tail. messages (snd (main_render h s)) = Some (ms @ tail)"
proof (cases "display_conversation h s")
  case (Pair out s1)
  have m1: "messages s1 = Some ms"
    using display_conversation_messages [of h s] Pair assms by simp
  show ?thesis
  proof (cases out)
    case Done
    obtain out2 s2 where hu: "handle_user_inputs h s1 = (out2, s2)"
      by (cases "handle_user_inputs h s1") blast
    obtain tail where m2: "messages s2 = Some (ms @ tail)"
      using handle_user_inputs_appends [OF m1, of h] hu by auto
    show ?thesis
      using Pair Done hu m2
      by (cases out2)
         (simp_all add: main_render_def display_warnings_messages
            handle_error_notifications_messages)
  next
    case Rerun
    then show ?thesis using Pair m1 by (simp add: main_render_def)
  next
    case (Raised e)
    then show ?thesis using Pair m1 by (simp add: main_render_def)
  qed
qed

lemma main_start_empty:
  assumes "messages s = None \<or> messages s = Some [] \<or> clear_chat_history h"
  shows "main_start h s =
           process_user_input h (JStr ''What questions can I ask?'')
             ((show_header_and_sidebar h (if messages s = None then reset_session_state s else s))
                \<lparr>messages := Some [system_message]\<rparr>)"
proof -
  have "messages (show_header_and_sidebar h (if messages s = None then reset_session_state s else s))
          = Some []"
    using assms by (auto simp: show_header_messages)
  then show ?thesis
    by (simp add: main_start_def Let_def)
qed

lemma main_start_nonempty:
  assumes "messages s = Some ms" and "ms \<noteq> []" and "\<not> clear_chat_history h"
  shows "main_start h s = (Done, show_header_and_sidebar h s)"
proof -
  have "messages (show_header_and_sidebar h s) = Some ms"
    using assms by (simp add: show_header_messages)
  then show ?thesis
    using assms by (simp add: main_start_def Let_def)
qed

lemma main_empty:
  assumes "messages s = None \<or> messages s = Some [] \<or> clear_chat_history h"
  shows "main h s = main_start h s" and "fst (main_start h s) \<noteq> Done"
    and "\<exists>tail. messages (snd (main_start h s)) =
           Some (system_message # user_message (JStr ''What questions can I ask?'') # tail)"
proof -
  let ?s3 = "(show_header_and_sidebar h (if messages s = None then reset_session_state s else s))
                \<lparr>messages := Some [system_message]\<rparr>"
  have m3: "messages ?s3 = Some [system_message]"
    by simp
  note c = process_user_input_cases [OF m3, of h "JStr ''What questions can I ask?''"]
  show nd: "fst (main_start h s) \<noteq> Done"
    using c by (simp add: main_start_empty [OF assms])
  show "\<exists>tail. messages (snd (main_start h s)) =
           Some (system_message # user_message (JStr ''What questions can I ask?'') # tail)"
    using c by (simp add: main_start_empty [OF assms])
  show "main h s = main_start h s"
    using nd by (cases "main_start h s"; cases "fst (main_start h s)") (simp_all add: main_def)
qed

lemma main_nonempty:
  assumes "messages s = Some ms" and "ms \<noteq> []" and "\<not> clear_chat_history h"
  shows "\<exists>tail. messages (snd (main h s)) = Some (ms @ tail)"
proof -
  have "messages (show_header_and_sidebar h s) = Some ms"
    using assms by (simp add: show_header_messages)
  from main_render_appends [OF this, of h]
  show ?thesis
    by (simp add: main_def main_start_nonempty [OF assms])
qed




lemma cycles_append:
  assumes "messages s = Some ms"
  shows "\<exists>tail. messages (cycles cs s) = Some (ms @ tail)"
  using assms
proof (induction cs arbitrary: s ms)
  case Nil
  then show ?case by simp
next
  case (Cons hp cs)
  obtain h p where hp: "hp = (h, p)"
    by (cases hp) blast
  obtain t1 where t1: "messages (snd (process_user_input h p s)) = Some (ms @ user_message p # t1)"
    using process_user_input_cases [OF Cons.prems, of h p] by blast
  from Cons.IH [OF t1]
  obtain t2 where "messages (cycles cs (snd (process_user_input h p s)))
                     = Some ((ms @ user_message p # t1) @ t2)"
    by blast
  then show ?case
    using hp by simp
qed

lemma cycles_grow:
  assumes "\<forall>hp \<in> set cs. \<forall>req. well_formed (send_snow_api_request (fst hp) req)"
    and "messages s = Some ms"
  shows "\<exists>tail. messages (cycles cs s) = Some (ms @ tail) \<and> length tail = 2 * length cs"
  using assms
proof (induction cs arbitrary: s ms)
  case Nil
  then show ?case by simp
next
  case (Cons hp cs)
  obtain h p where hp: "hp = (h, p)"
    by (cases hp) blast
  have wf: "well_formed (send_snow_api_request h (complete_request (ms @ [user_message p])))"
    using Cons.prems(1) hp by simp
  then obtain env where env:
    "content (send_snow_api_request h (complete_request (ms @ [user_message p]))) = Inr env"
    by (auto simp: well_formed_def split: sum.splits)
  from process_user_input_well_formed [OF Cons.prems(2) refl env wf]
  obtain a err s' where
    "fst (create_relevant_graph_tables h (ms @ [user_message p]) s) = Inr (env, err)"
    and "analyst_message env err = Inr a"
    and run: "process_user_input h p s = (Rerun, s')"
    and st: "s'\<lparr>screen := screen s\<rparr> =
              s\<lparr>warnings := Some (envelope_warnings env),
                messages := Some (ms @ [user_message p, a]),
                fire_API_error_notify :=
                  (if err = None then fire_API_error_notify s else Some True),
                api_log := api_log s @ [complete_request (ms @ [user_message p])]\<rparr>"
    by blast
  have m: "messages s' = Some (ms @ [user_message p, a])"
    using arg_cong [OF st, of messages] by simp
  have rest: "\<forall>hp \<in> set cs. \<forall>req. well_formed (send_snow_api_request (fst hp) req)"
    using Cons.prems(1) by simp
  from Cons.IH [OF rest m]
  obtain tail where "messages (cycles cs s') = Some ((ms @ [user_message p, a]) @ tail)"
    and "length tail = 2 * length cs"
    by blast
  then have "messages (cycles (hp # cs) s) = Some (ms @ ([user_message p, a] @ tail))
           \<and> length ([user_message p, a] @ tail) = 2 * length (hp # cs)"
    using hp run by simp
  then show ?case by blast
qed

text \<open>
  Claim C3 fails as it counts the turns. In the first run of a fresh session, with a
  successful remote call and no input from the user, the transcript already has three
  turns: the system turn, the question the program asks by itself and the answer. With
  no accepted input the claim gives the length 1.
\<close>

theorem synthetic_pair_counterexample:
  "messages (snd (main (replying (answer 200 hi_envelope)) fresh))
     = Some [system_message, user_message (JStr ''What questions can I ask?''),
             JObj [(''role'', JStr ''analyst''),
                   (''content'', JArr [JObj [(''type'', JStr ''text''), (''text'', JStr ''hi'')]]),
                   (''request_id'', JStr ''r2'')]]
   \<and> chat_input (replying (answer 200 hi_envelope)) = None
   \<and> length [system_message, user_message (JStr ''What questions can I ask?''),
             JObj [(''role'', JStr ''analyst''),
                   (''content'', JArr [JObj [(''type'', JStr ''text''), (''text'', JStr ''hi'')]]),
                   (''request_id'', JStr ''r2'')]] \<noteq> 1 + 2 * (0 :: nat)"
proof -
  have e: "messages fresh = None \<or> messages fresh = Some []
            \<or> clear_chat_history (replying (answer 200 hi_envelope))"
    by (simp add: fresh_def)
  show ?thesis
    by (simp add: main_empty(1) [OF e] main_start_empty [OF e])
       (simp add: sample_defs process_user_input_def display_user_content emit_def Let_def
          create_relevant_graph_tables_def analyst_message_def extend_warnings_def
          show_header_and_sidebar_def)
qed

text \<open>
  Claim C3, amended. After the start of a session (fresh, empty or reset) and \<open>N\<close>
  further cycles, one for each accepted input, with every remote call answered by a
  well-formed response (as all successful ones are), the transcript has exactly
  \<open>3 + 2 * N\<close> turns: the system turn, the pair of the program's own question, then
  \<open>N\<close> pairs. Between resets the transcript only grows at its end, whatever the
  responses are: a cycle, a sequence of cycles, and a run of the script without a reset
  leave the old transcript as a prefix of the new one, so no turn is removed or moved and
  the index of a turn never changes.
\<close>

theorem transcript_length:
  "(messages s0 = None \<or> messages s0 = Some [] \<or> clear_chat_history h0 \<longrightarrow>
      (\<forall>req. well_formed (send_snow_api_request h0 req)) \<longrightarrow>
      (\<forall>hp \<in> set cs. \<forall>req. well_formed (send_snow_api_request (fst hp) req)) \<longrightarrow>
        (\<exists>a tail. messages (cycles cs (snd (main h0 s0)))
             = Some ([system_message, user_message (JStr ''What questions can I ask?''), a] @ tail)
           \<and> length tail = 2 * length cs
           \<and> length ([system_message, user_message (JStr ''What questions can I ask?''), a] @ tail)
               = 3 + 2 * length cs))
   \<and> (\<forall>ms. messages s = Some ms \<longrightarrow>
          (\<exists>tail. messages (snd (process_user_input h p s)) = Some (ms @ tail))
        \<and> (\<exists>tail. messages (cycles cs s) = Some (ms @ tail))
        \<and> (ms \<noteq> [] \<longrightarrow> \<not> clear_chat_history h \<longrightarrow>
              (\<exists>tail. messages (snd (main h s)) = Some (ms @ tail))))"
proof (intro conjI impI allI)
  assume e: "messages s0 = None \<or> messages s0 = Some [] \<or> clear_chat_history h0"
    and wf0: "\<forall>req. well_formed (send_snow_api_request h0 req)"
    and wfs: "\<forall>hp \<in> set cs. \<forall>req. well_formed (send_snow_api_request (fst hp) req)"
  let ?q = "JStr ''What questions can I ask?''"
  let ?s3 = "(show_header_and_sidebar h0 (if messages s0 = None then reset_session_state s0 else s0))
                \<lparr>messages := Some [system_message]\<rparr>"
  have m3: "messages ?s3 = Some [system_message]"
    by simp
  have wf: "well_formed (send_snow_api_request h0
              (complete_request ([system_message] @ [user_message ?q])))"
    using wf0 by blast
  then obtain env where env: "content (send_snow_api_request h0
              (complete_request ([system_message] @ [user_message ?q]))) = Inr env"
    by (auto simp: well_formed_def split: sum.splits)
  from process_user_input_well_formed [OF m3 refl env wf]
  obtain a err s' where
    "fst (create_relevant_graph_tables h0 ([system_message] @ [user_message ?q]) ?s3)
       = Inr (env, err)"
    and "analyst_message env err = Inr a"
    and run: "process_user_input h0 ?q ?s3 = (Rerun, s')"
    and st: "s'\<lparr>screen := screen ?s3\<rparr> =
              ?s3\<lparr>warnings := Some (envelope_warnings env),
                messages := Some ([system_message] @ [user_message ?q, a]),
                fire_API_error_notify :=
                  (if err = None then fire_API_error_notify ?s3 else Some True),
                api_log := api_log ?s3 @ [complete_request ([system_message] @ [user_message ?q])]\<rparr>"
    by blast
  have msgs: "messages s' = Some [system_message, user_message ?q, a]"
    using arg_cong [OF st, of messages] by simp
  have "main h0 s0 = (Rerun, s')"
    using main_empty(1) [OF e] main_start_empty [OF e] run by simp
  then have start: "messages (snd (main h0 s0)) = Some [system_message, user_message ?q, a]"
    using msgs by simp
  from cycles_grow [OF wfs start]
  obtain tail where "messages (cycles cs (snd (main h0 s0)))
                       = Some ([system_message, user_message ?q, a] @ tail)"
    and "length tail = 2 * length cs"
    by blast
  then show "\<exists>a tail. messages (cycles cs (snd (main h0 s0)))
             = Some ([system_message, user_message (JStr ''What questions can I ask?''), a] @ tail)
           \<and> length tail = 2 * length cs
           \<and> length ([system_message, user_message (JStr ''What questions can I ask?''), a] @ tail)
               = 3 + 2 * length cs"
    by auto
next
  fix ms assume ms: "messages s = Some ms"
  show "\<exists>tail. messages (snd (process_user_input h p s)) = Some (ms @ tail)"
    using process_user_input_cases [OF ms, of h p] by blast
  show "\<exists>tail. messages (cycles cs s) = Some (ms @ tail)"
    using cycles_append [OF ms] .
next
  fix ms assume "messages s = Some ms" "ms \<noteq> []" "\<not> clear_chat_history h"
  then show "\<exists>tail. messages (snd (main h s)) = Some (ms @ tail)"
    by (rule main_nonempty)
qed

text \<open>A fresh session, its first run and two further cycles: seven turns.\<close>

theorem transcript_length_witness:
  "\<exists>a tail. messages (cycles [(replying (answer 200 hi_envelope), JStr ''q1''),
                               (replying (answer 200 (warning_envelope ''a'')), JStr ''q2'')]
                  (snd (main (replying (answer 200 hi_envelope)) fresh)))
        = Some ([system_message, user_message (JStr ''What questions can I ask?''), a] @ tail)
      \<and> length tail = 4
      \<and> length ([system_message, user_message (JStr ''What questions can I ask?''), a] @ tail) = 7"
  using transcript_length
          [of fresh "replying (answer 200 hi_envelope)"
              "[(replying (answer 200 hi_envelope), JStr ''q1''),
                (replying (answer 200 (warning_envelope ''a'')), JStr ''q2'')]"]
  by (simp add: sample_defs)

end
